theory Spec2Isabelle
  imports Complex_Main "HOL-Library.List_Lexorder" "HOL-Library.Char_ord"
begin

section \<open>JavaScript values used by the services\<close>

text \<open>
  A JavaScript \<open>Date\<close> is its time value: milliseconds since the epoch, UTC.  The
  local-time methods (\<open>setHours\<close>, \<open>getMonth\<close>, \<open>getDate\<close>) depend on the time zone
  of the host; it is taken as a fixed offset \<open>tz\<close>, in minutes east of UTC, and is a
  parameter of every function that reads local time.  An Invalid Date is not a value of
  this type.
\<close>

type_synonym Date = int

definition msPerDay :: int where
  "msPerDay = 86400000"

definition localTime :: "int \<Rightarrow> Date \<Rightarrow> int" where
  "localTime tz t = t + tz * 60000"

text \<open>\<open>d.setHours(0, 0, 0, 0)\<close> and \<open>d.setHours(23, 59, 59, 999)\<close>.\<close>

definition setHours_0_0_0_0 :: "int \<Rightarrow> Date \<Rightarrow> Date" where
  "setHours_0_0_0_0 tz t = (localTime tz t div msPerDay) * msPerDay - tz * 60000"

definition setHours_23_59_59_999 :: "int \<Rightarrow> Date \<Rightarrow> Date" where
  "setHours_23_59_59_999 tz t = setHours_0_0_0_0 tz t + (msPerDay - 1)"

text \<open>
  \<open>new Date(Date.UTC(d.getUTCFullYear(), d.getUTCMonth(), d.getUTCDate()))\<close>: the
  first millisecond of the UTC day of \<open>d\<close>.
\<close>

definition utcMidnight :: "Date \<Rightarrow> Date" where
  "utcMidnight t = (t div msPerDay) * msPerDay"

text \<open>
  The civil date of a day number (days since 1970-01-01), in the proleptic Gregorian
  calendar, as the runtime computes \<open>getMonth\<close> and \<open>getDate\<close>.
\<close>

definition dayOfEra :: "int \<Rightarrow> int" where
  "dayOfEra days = (days + 719468) mod 146097"

definition yearOfEra :: "int \<Rightarrow> int" where
  "yearOfEra doe = (doe - doe div 1460 + doe div 36524 - doe div 146096) div 365"

definition dayOfYear :: "int \<Rightarrow> int" where
  "dayOfYear doe = doe - (365 * yearOfEra doe + yearOfEra doe div 4 - yearOfEra doe div 100)"

definition monthIndex :: "int \<Rightarrow> int" where
  "monthIndex doy = (5 * doy + 2) div 153"

definition civilMonth :: "int \<Rightarrow> int" where
  "civilMonth days =
     (let mp = monthIndex (dayOfYear (dayOfEra days)) in if mp < 10 then mp + 3 else mp - 9)"

definition civilDay :: "int \<Rightarrow> int" where
  "civilDay days =
     (let doy = dayOfYear (dayOfEra days) in doy - (153 * monthIndex doy + 2) div 5 + 1)"

text \<open>\<open>getMonth()\<close> counts from 0 (January); \<open>getDate()\<close> is the day of the month.\<close>

definition getMonth :: "int \<Rightarrow> Date \<Rightarrow> int" where
  "getMonth tz t = civilMonth (localTime tz t div msPerDay) - 1"

definition getDate :: "int \<Rightarrow> Date \<Rightarrow> int" where
  "getDate tz t = civilDay (localTime tz t div msPerDay)"

text \<open>
  Decimal numerals.  \<open>toString\<close> prints a non-negative integer; \<open>Number\<close> is modelled
  on non-empty strings of decimal digits only, where it yields the number they spell,
  and is \<open>None\<close> on every other string.
\<close>

fun toString :: "nat \<Rightarrow> string" where
  "toString n =
     (if n < 10 then [char_of (48 + n)]
      else toString (n div 10) @ [char_of (48 + n mod 10)])"

declare toString.simps [simp del]

definition isDigit :: "char \<Rightarrow> bool" where
  "isDigit c = (48 \<le> (of_char c :: nat) \<and> (of_char c :: nat) \<le> 57)"

definition Number :: "string \<Rightarrow> nat option" where
  "Number s =
     (if s \<noteq> [] \<and> list_all isDigit s
      then Some (foldl (\<lambda>acc c. acc * 10 + (of_char c - 48)) 0 s)
      else None)"

text \<open>\<open>s.split(':')\<close>.\<close>

fun split_colon :: "string \<Rightarrow> string list" where
  "split_colon [] = [[]]"
| "split_colon (c # cs) =
     (if c = CHR '':'' then [] # split_colon cs
      else (case split_colon cs of [] \<Rightarrow> [[c]] | w # ws \<Rightarrow> (c # w) # ws))"

section \<open>The checkout extension: cutoff check\<close>

text \<open>
  \<open>isSlotPastCutoff\<close> of the delivery selector.  Each argument is split at the colons,
  its first two parts are read as numbers, and the minutes since midnight are compared.
  The result is \<open>None\<close> when a part is missing or is not a string of decimal digits.
\<close>

definition hourMinute :: "string \<Rightarrow> (nat \<times> nat) option" where
  "hourMinute s =
     (case split_colon s of
        h # m # _ \<Rightarrow>
          (case (Number h, Number m) of
             (Some hour, Some minute) \<Rightarrow> Some (hour, minute)
           | _ \<Rightarrow> None)
      | _ \<Rightarrow> None)"

definition isSlotPastCutoff :: "string \<Rightarrow> string \<Rightarrow> bool option" where
  "isSlotPastCutoff slotEndTime cutoffTime =
     (case (hourMinute slotEndTime, hourMinute cutoffTime) of
        (Some (slotHour, slotMinute), Some (cutoffHour, cutoffMinute)) \<Rightarrow>
          (let slotMinutes = slotHour * 60 + slotMinute;
               cutoffMinutes = cutoffHour * 60 + cutoffMinute
           in Some (slotMinutes > cutoffMinutes))
      | _ \<Rightarrow> None)"

text \<open>A time of day written as \<open>HH:MM\<close>, two digits each.\<close>

definition twoDigits :: "nat \<Rightarrow> string" where
  "twoDigits n = [char_of (48 + n div 10), char_of (48 + n mod 10)]"

definition HHMM :: "nat \<Rightarrow> nat \<Rightarrow> string" where
  "HHMM h m = twoDigits h @ CHR '':'' # twoDigits m"

section \<open>The database\<close>

text \<open>
  The tables of the initial migration.  A row keeps the columns that the services read;
  an insert is checked on every column it writes.  \<open>DATE\<close> columns hold the first
  millisecond of a UTC day when read back.  A string has one \<open>char\<close> per character.
\<close>

record DeliveryZone =
  zone_id :: string
  zone_shopName :: string
  zone_name :: string
  zone_shippingRate :: real
  zone_isActive :: bool

record DeliverySlot =
  slot_id :: string
  slot_shopName :: string
  slot_startTime :: string
  slot_endTime :: string
  slot_capacity :: int
  slot_currentOrders :: int
  slot_isActive :: bool
  slot_zoneId :: string

record BlackoutDate =
  blackout_id :: string
  blackout_shopName :: string
  blackout_date :: Date
  blackout_isRecurring :: bool
  blackout_zoneId :: "string option"

datatype OrderStatus = PENDING | CONFIRMED | CANCELLED | DELIVERED

record Order =
  order_id :: string
  order_shopName :: string
  order_shopifyOrderId :: string
  order_customerEmail :: string
  order_deliverySlotId :: string
  order_deliveryDate :: Date
  order_status :: OrderStatus

record ShopSettings =
  settings_id :: string
  settings_shopName :: string
  settings_cutoffTime :: string
  settings_maxDaysInAdvance :: int
  settings_enableSameDayDelivery :: bool
  settings_timezone :: string

text \<open>
  Every query of the services is a call site; a call site in \<open>outage\<close> throws instead of
  answering (the connection is lost, the query times out).
\<close>

datatype call =
    Q_exactDateBlackout
  | Q_recurringBlackout
  | Q_orderCount
  | Q_availableSlots
  | Q_zoneByCountryCode
  | Q_createSlot_zone
  | Q_createSlot_existingSlots
  | Q_createSlot_create
  | Q_slotAvailable_slot
  | Q_releaseSlot_updateMany
  | Q_release_findOrder
  | Q_release_updateOrder
  | Q_settings_findUnique
  | Q_settings_create
  | Q_orderCreated_slot
  | Q_orderCreated_create

record db =
  shops :: "string list"
  deliveryZones :: "DeliveryZone list"
  deliverySlots :: "DeliverySlot list"
  blackoutDates :: "BlackoutDate list"
  orders :: "Order list"
  shopSettings :: "ShopSettings list"
  outage :: "call set"

datatype prisma_error = ConnectionError | ConstraintViolation | ValidationError

datatype error = Error string | PrismaError prisma_error

definition query :: "db \<Rightarrow> call \<Rightarrow> 'a \<Rightarrow> error + 'a" where
  "query d c answer = (if c \<in> outage d then Inl (PrismaError ConnectionError) else Inr answer)"


text \<open>
  The column types of the migration: \<open>VARCHAR(n)\<close> holds at most \<open>n\<close> characters,
  \<open>INTEGER\<close> a signed 32-bit number, \<open>DATE\<close> a day from 1000-01-01 to 9999-12-31,
  \<open>TEXT\<close> at most 65535 bytes.  A value that does not fit is refused, by the client
  or by the server.
\<close>

definition fitsVarchar :: "nat \<Rightarrow> string \<Rightarrow> bool" where
  "fitsVarchar n s = (length s \<le> n)"

definition fitsInteger :: "int \<Rightarrow> bool" where
  "fitsInteger n = (- 2147483648 \<le> n \<and> n \<le> 2147483647)"



text \<open>
  Inserts.  The row id is produced by the client and is a parameter.  An insert is
  refused when a value is missing or does not fit its column, and when it would break
  the primary key, a unique index or a foreign key of the migration.
\<close>

definition deliverySlot_fits :: "DeliverySlot \<Rightarrow> bool" where
  "deliverySlot_fits row =
     (fitsVarchar 191 (slot_id row) \<and>
      fitsVarchar 191 (slot_shopName row) \<and>
      fitsVarchar 5 (slot_startTime row) \<and>
      fitsVarchar 5 (slot_endTime row) \<and>
      fitsInteger (slot_capacity row) \<and>
      fitsInteger (slot_currentOrders row) \<and>
      fitsVarchar 191 (slot_zoneId row))"

definition deliverySlot_accepts :: "db \<Rightarrow> DeliverySlot \<Rightarrow> bool" where
  "deliverySlot_accepts d row =
     (slot_id row \<notin> set (map slot_id (deliverySlots d)) \<and>
      (\<forall>s \<in> set (deliverySlots d).
         \<not> (slot_shopName s = slot_shopName row \<and> slot_zoneId s = slot_zoneId row \<and>
            slot_startTime s = slot_startTime row \<and> slot_endTime s = slot_endTime row)) \<and>
      slot_zoneId row \<in> set (map zone_id (deliveryZones d)) \<and>
      slot_shopName row \<in> set (shops d))"

definition deliverySlot_create :: "db \<Rightarrow> call \<Rightarrow> DeliverySlot \<Rightarrow> (error + DeliverySlot) \<times> db" where
  "deliverySlot_create d c row =
     (if c \<in> outage d then (Inl (PrismaError ConnectionError), d)
      else if \<not> deliverySlot_fits row then (Inl (PrismaError ValidationError), d)
      else if \<not> deliverySlot_accepts d row then (Inl (PrismaError ConstraintViolation), d)
      else (Inr row, d\<lparr>deliverySlots := deliverySlots d @ [row]\<rparr>))"

text \<open>
  The \<open>data\<close> of \<open>order.create\<close>: every column the webhook handler writes.  The
  e-mail address, the total and the shipping address come from the payload and may be
  missing; their columns are \<open>NOT NULL\<close>.  The JSON column takes any JSON text.
\<close>

record OrderCreateData =
  new_id :: string
  new_shopName :: string
  new_shopifyOrderId :: string
  new_customerEmail :: "string option"
  new_deliverySlotId :: string
  new_deliveryDate :: Date
  new_totalAmount :: "real option"
  new_shippingAddress :: "string option"
  new_status :: OrderStatus
  new_deliveryNotes :: string





definition shopSettings_accepts :: "db \<Rightarrow> ShopSettings \<Rightarrow> bool" where
  "shopSettings_accepts d row =
     (settings_id row \<notin> set (map settings_id (shopSettings d)) \<and>
      settings_shopName row \<notin> set (map settings_shopName (shopSettings d)) \<and>
      settings_shopName row \<in> set (shops d))"

definition shopSettings_create :: "db \<Rightarrow> call \<Rightarrow> ShopSettings \<Rightarrow> (error + ShopSettings) \<times> db" where
  "shopSettings_create d c row =
     (if c \<in> outage d then (Inl (PrismaError ConnectionError), d)
      else if \<not> shopSettings_accepts d row then (Inl (PrismaError ConstraintViolation), d)
      else (Inr row, d\<lparr>shopSettings := shopSettings d @ [row]\<rparr>))"


section \<open>DeliveryService\<close>

record CreateSlotData =
  data_shopName :: string
  data_startTime :: string
  data_endTime :: string
  data_capacity :: int
  data_zoneId :: string

record SlotWithBookings = DeliverySlot +
  zone :: "DeliveryZone option"
  currentBookings :: int
  availableCapacity :: int

text \<open>
  The filter \<open>OR: [{ zoneId: zoneId }, { zoneId: null }]\<close> of both blackout queries; an
  undefined \<open>zoneId\<close> leaves its disjunct without a condition.
\<close>

definition zoneIdOrNull :: "string option \<Rightarrow> BlackoutDate \<Rightarrow> bool" where
  "zoneIdOrNull zoneId b =
     ((case zoneId of None \<Rightarrow> True | Some z \<Rightarrow> blackout_zoneId b = Some z) \<or>
      blackout_zoneId b = None)"

definition exactDateBlackout :: "int \<Rightarrow> db \<Rightarrow> string \<Rightarrow> Date \<Rightarrow> string option \<Rightarrow> BlackoutDate option" where
  "exactDateBlackout tz d shopName date zoneId =
     (let startOfDay = setHours_0_0_0_0 tz date;
          endOfDay = setHours_23_59_59_999 tz date
      in find (\<lambda>b. blackout_shopName b = shopName \<and>
                     startOfDay \<le> blackout_date b \<and> blackout_date b \<le> endOfDay \<and>
                     zoneIdOrNull zoneId b)
           (blackoutDates d))"

definition recurringBlackout :: "db \<Rightarrow> string \<Rightarrow> string option \<Rightarrow> BlackoutDate option" where
  "recurringBlackout d shopName zoneId =
     find (\<lambda>b. blackout_shopName b = shopName \<and> blackout_isRecurring b \<and> zoneIdOrNull zoneId b)
       (blackoutDates d)"

definition isDateBlackedOut :: "int \<Rightarrow> db \<Rightarrow> string \<Rightarrow> Date \<Rightarrow> string option \<Rightarrow> bool" where
  "isDateBlackedOut tz d shopName date zoneId =
     (case query d Q_exactDateBlackout (exactDateBlackout tz d shopName date zoneId) of
        Inl e \<Rightarrow> False
      | Inr (Some b) \<Rightarrow> True
      | Inr None \<Rightarrow>
          (case query d Q_recurringBlackout (recurringBlackout d shopName zoneId) of
             Inl e \<Rightarrow> False
           | Inr (Some r) \<Rightarrow>
               (let blackoutMonth = getMonth tz (blackout_date r);
                    blackoutDay = getDate tz (blackout_date r);
                    requestedMonth = getMonth tz date;
                    requestedDay = getDate tz date
                in blackoutMonth = requestedMonth \<and> blackoutDay = requestedDay)
           | Inr None \<Rightarrow> False))"

definition getSlotBookingsForDate :: "db \<Rightarrow> string \<Rightarrow> Date \<Rightarrow> int" where
  "getSlotBookingsForDate d slotId date =
     (let start = utcMidnight date;
          end' = start + msPerDay
      in case query d Q_orderCount
                (int (length (filter (\<lambda>r. order_deliverySlotId r = slotId \<and>
                                             order_status r \<noteq> CANCELLED \<and>
                                             start \<le> order_deliveryDate r \<and>
                                             order_deliveryDate r < end')
                                (orders d)))) of
           Inl e \<Rightarrow> 0
         | Inr n \<Rightarrow> n)"

text \<open>The callback of \<open>slots.map\<close> in \<open>getAvailableSlots\<close>, with the joined zone.\<close>

definition withBookings :: "db \<Rightarrow> Date \<Rightarrow> DeliverySlot \<Rightarrow> SlotWithBookings" where
  "withBookings d requestedDate slot =
     (let bookings = getSlotBookingsForDate d (slot_id slot) requestedDate
      in \<lparr> slot_id = slot_id slot,
           slot_shopName = slot_shopName slot,
           slot_startTime = slot_startTime slot,
           slot_endTime = slot_endTime slot,
           slot_capacity = slot_capacity slot,
           slot_currentOrders = bookings,
           slot_isActive = slot_isActive slot,
           slot_zoneId = slot_zoneId slot,
           zone = find (\<lambda>z. zone_id z = slot_zoneId slot) (deliveryZones d),
           currentBookings = bookings,
           availableCapacity = slot_capacity slot - bookings \<rparr>)"

definition activeSlotsOfZone :: "db \<Rightarrow> string \<Rightarrow> string \<Rightarrow> DeliverySlot list" where
  "activeSlotsOfZone d shopName zoneId =
     sort_key slot_startTime
       (filter (\<lambda>s. slot_shopName s = shopName \<and> slot_zoneId s = zoneId \<and> slot_isActive s)
          (deliverySlots d))"

definition getAvailableSlots :: "int \<Rightarrow> db \<Rightarrow> string \<Rightarrow> Date \<Rightarrow> string \<Rightarrow> error + SlotWithBookings list" where
  "getAvailableSlots tz d shopName requestedDate zoneId =
     (if isDateBlackedOut tz d shopName requestedDate (Some zoneId) then Inr []
      else
        (case query d Q_availableSlots (activeSlotsOfZone d shopName zoneId) of
           Inl e \<Rightarrow> Inl (Error ''Failed to fetch available slots'')
         | Inr slots \<Rightarrow>
             Inr (filter (\<lambda>slot. availableCapacity slot > 0)
                    (map (withBookings d requestedDate) slots))))"

definition getZoneByCountryCode :: "db \<Rightarrow> string \<Rightarrow> string \<Rightarrow> error + DeliveryZone option" where
  "getZoneByCountryCode d shopName countryCode =
     (case query d Q_zoneByCountryCode
             (find (\<lambda>z. zone_shopName z = shopName \<and> zone_name z = countryCode \<and> zone_isActive z)
                (deliveryZones d)) of
        Inl e \<Rightarrow> Inl (Error ''Failed to find delivery zone'')
      | Inr z \<Rightarrow> Inr z)"

text \<open>
  The three alternatives of the overlap filter of \<open>createDeliverySlot\<close>.  Times are
  strings and are compared as strings, here and in \<open>orderBy\<close>; on values written
  \<open>HH:MM\<close> with two digits each, this is the order of the times.
\<close>

definition overlapsRequest :: "CreateSlotData \<Rightarrow> DeliverySlot \<Rightarrow> bool" where
  "overlapsRequest data s =
     ((slot_startTime s \<le> data_startTime data \<and> slot_endTime s > data_startTime data) \<or>
      (slot_startTime s < data_endTime data \<and> slot_endTime s \<ge> data_endTime data) \<or>
      (slot_startTime s \<ge> data_startTime data \<and> slot_endTime s \<le> data_endTime data))"

definition existingSlots :: "db \<Rightarrow> CreateSlotData \<Rightarrow> DeliverySlot list" where
  "existingSlots d data =
     filter (\<lambda>s. slot_shopName s = data_shopName data \<and> slot_zoneId s = data_zoneId data \<and>
                  slot_isActive s \<and> overlapsRequest data s)
       (deliverySlots d)"

definition createDeliverySlot :: "string \<Rightarrow> db \<Rightarrow> CreateSlotData \<Rightarrow> (error + DeliverySlot) \<times> db" where
  "createDeliverySlot newId d data =
     (case query d Q_createSlot_zone
             (find (\<lambda>z. zone_id z = data_zoneId data \<and> zone_shopName z = data_shopName data \<and>
                         zone_isActive z)
                (deliveryZones d)) of
        Inl e \<Rightarrow> (Inl e, d)
      | Inr None \<Rightarrow> (Inl (Error ''Invalid delivery zone for this shop''), d)
      | Inr (Some z) \<Rightarrow>
          (case query d Q_createSlot_existingSlots (existingSlots d data) of
             Inl e \<Rightarrow> (Inl e, d)
           | Inr found \<Rightarrow>
               if length found > 0
               then (Inl (Error ''Time slot overlaps with existing slot''), d)
               else deliverySlot_create d Q_createSlot_create
                      \<lparr> slot_id = newId,
                        slot_shopName = data_shopName data,
                        slot_startTime = data_startTime data,
                        slot_endTime = data_endTime data,
                        slot_capacity = data_capacity data,
                        slot_currentOrders = 0,
                        slot_isActive = True,
                        slot_zoneId = data_zoneId data \<rparr>))"

definition isSlotAvailableForDate :: "int \<Rightarrow> db \<Rightarrow> string \<Rightarrow> Date \<Rightarrow> bool" where
  "isSlotAvailableForDate tz d slotId requestedDate =
     (case query d Q_slotAvailable_slot (find (\<lambda>s. slot_id s = slotId) (deliverySlots d)) of
        Inl e \<Rightarrow> False
      | Inr None \<Rightarrow> False
      | Inr (Some slot) \<Rightarrow>
          if \<not> slot_isActive slot then False
          else if isDateBlackedOut tz d (slot_shopName slot) requestedDate (Some (slot_zoneId slot))
          then False
          else getSlotBookingsForDate d slotId requestedDate < slot_capacity slot)"

definition releaseSlot :: "db \<Rightarrow> string \<Rightarrow> bool \<times> db" where
  "releaseSlot d slotId =
     (if Q_releaseSlot_updateMany \<in> outage d then (False, d)
      else
        (let matches = (\<lambda>s. slot_id s = slotId \<and> slot_currentOrders s > 0);
             count = length (filter matches (deliverySlots d));
             d' = d\<lparr>deliverySlots :=
                      map (\<lambda>s. if matches s then s\<lparr>slot_currentOrders := slot_currentOrders s - 1\<rparr>
                                else s)
                        (deliverySlots d)\<rparr>
         in (count > 0, d')))"




section \<open>ShopService\<close>

definition getShopSettings :: "string \<Rightarrow> db \<Rightarrow> string \<Rightarrow> ShopSettings option \<times> db" where
  "getShopSettings newId d shopName =
     (case query d Q_settings_findUnique
             (find (\<lambda>s. settings_shopName s = shopName) (shopSettings d)) of
        Inl e \<Rightarrow> (None, d)
      | Inr (Some settings) \<Rightarrow> (Some settings, d)
      | Inr None \<Rightarrow>
          (case shopSettings_create d Q_settings_create
                  \<lparr> settings_id = newId,
                    settings_shopName = shopName,
                    settings_cutoffTime = ''14:00'',
                    settings_maxDaysInAdvance = 30,
                    settings_enableSameDayDelivery = False,
                    settings_timezone = ''UTC'' \<rparr> of
             (Inl e, _) \<Rightarrow> (None, d)
           | (Inr settings, d') \<Rightarrow> (Some settings, d')))"

section \<open>WebHookService: order creation\<close>

text \<open>
  The payload fields the handler stores.  \<open>payload_total_price\<close> is the number that
  \<open>parseFloat(order.total_price)\<close> yields, \<open>None\<close> when that is not a finite number;
  \<open>payload_shipping_address\<close> is the address object as JSON text.  The delivery
  selection extracted from the payload carries the slot, the date as the text it was
  sent in, and the \<open>Date\<close> that \<open>new Date(deliveryDate)\<close> makes of it.
\<close>

record ShopifyOrderCreated =
  payload_id :: nat
  payload_email :: "string option"
  payload_total_price :: "real option"
  payload_shipping_address :: "string option"

record DeliverySelection =
  selection_slotId :: string
  selection_deliveryDate :: string
  selection_requestedDate :: Date

text \<open>
  \<open>JSON.stringify\<close> of a string, and of the object stored in \<open>deliveryNotes\<close>.
\<close>

definition hexDigit :: "nat \<Rightarrow> char" where
  "hexDigit n = (if n < 10 then char_of (48 + n) else char_of (87 + n))"

definition jsonEscape :: "char \<Rightarrow> string" where
  "jsonEscape c =
     (let code = (of_char c :: nat)
      in if code = 34 then [CHR 0x5C, CHR 0x22]
         else if code = 92 then [CHR 0x5C, CHR 0x5C]
         else if code = 8 then CHR 0x5C # ''b''
         else if code = 9 then CHR 0x5C # ''t''
         else if code = 10 then CHR 0x5C # ''n''
         else if code = 12 then CHR 0x5C # ''f''
         else if code = 13 then CHR 0x5C # ''r''
         else if code < 32 then CHR 0x5C # ''u00'' @ [hexDigit (code div 16), hexDigit (code mod 16)]
         else [c])"

definition jsonString :: "string \<Rightarrow> string" where
  "jsonString s = CHR 0x22 # concat (map jsonEscape s) @ [CHR 0x22]"

definition deliveryNotes :: "string \<Rightarrow> string \<Rightarrow> string \<Rightarrow> string" where
  "deliveryNotes deliveryDate timeSlot zoneName =
     ''{'' @ jsonString ''deliveryDate'' @ '':'' @ jsonString deliveryDate @
     '','' @ jsonString ''timeSlot'' @ '':'' @ jsonString timeSlot @
     '','' @ jsonString ''zone'' @ '':'' @ jsonString zoneName @ ''}''"

text \<open>The \<open>data\<close> of the insert, for the slot found and the name of its zone.\<close>

definition orderCreatedData ::
  "string \<Rightarrow> string \<Rightarrow> ShopifyOrderCreated \<Rightarrow> DeliverySelection \<Rightarrow> DeliverySlot \<Rightarrow> string
     \<Rightarrow> OrderCreateData" where
  "orderCreatedData newId shopName payload sel slot zoneName =
     \<lparr> new_id = newId,
       new_shopName = shopName,
       new_shopifyOrderId = toString (payload_id payload),
       new_customerEmail = payload_email payload,
       new_deliverySlotId = selection_slotId sel,
       new_deliveryDate = selection_requestedDate sel,
       new_totalAmount = payload_total_price payload,
       new_shippingAddress = payload_shipping_address payload,
       new_status = CONFIRMED,
       new_deliveryNotes =
         deliveryNotes (selection_deliveryDate sel)
           (slot_startTime slot @ '' - '' @ slot_endTime slot) zoneName \<rparr>"



section \<open>The zones endpoint\<close>

datatype json = ErrorJson string | ZoneJson string string real

record Response =
  response_status :: nat
  response_body :: json

text \<open>A search parameter is falsy when it is absent or empty.\<close>

definition falsy :: "string option \<Rightarrow> bool" where
  "falsy p = (p = None \<or> p = Some [])"

definition DeliveryZones_loader :: "db \<Rightarrow> string option \<Rightarrow> string option \<Rightarrow> Response" where
  "DeliveryZones_loader d countryCode shopName =
     (if falsy countryCode \<or> falsy shopName
      then \<lparr>response_status = 400, response_body = ErrorJson ''Country code and shop are required''\<rparr>
      else
        (case getZoneByCountryCode d (the shopName) (the countryCode) of
           Inl e \<Rightarrow> \<lparr>response_status = 500, response_body = ErrorJson ''Internal server error''\<rparr>
         | Inr None \<Rightarrow>
             \<lparr>response_status = 404,
              response_body = ErrorJson ''No delivery zone found for this country''\<rparr>
         | Inr (Some z) \<Rightarrow>
             \<lparr>response_status = 200,
              response_body = ZoneJson (zone_id z) (zone_name z) (zone_shippingRate z)\<rparr>))"

section \<open>Notions used in the statements\<close>

text \<open>The rows that \<open>releaseSlot\<close> selects: the slot itself, with a positive counter.\<close>

definition decremented :: "string \<Rightarrow> DeliverySlot \<Rightarrow> bool" where
  "decremented slotId s = (slot_id s = slotId \<and> slot_currentOrders s > 0)"





text \<open>
  For a slot-creation request: the zone is an active zone of the shop; the shop and zone
  hold an active slot that overlaps the requested range (it starts at or before the
  requested start and ends after it, or starts before the requested end and ends at or
  after it, or lies within the requested range); the shop and zone hold a slot, active
  or not, with the requested start and end time.
\<close>

definition validZone :: "db \<Rightarrow> CreateSlotData \<Rightarrow> bool" where
  "validZone d data =
     (\<exists>z \<in> set (deliveryZones d).
        zone_id z = data_zoneId data \<and> zone_shopName z = data_shopName data \<and> zone_isActive z)"

definition overlappingSlot :: "db \<Rightarrow> CreateSlotData \<Rightarrow> bool" where
  "overlappingSlot d data =
     (\<exists>s \<in> set (deliverySlots d).
        slot_shopName s = data_shopName data \<and> slot_zoneId s = data_zoneId data \<and>
        slot_isActive s \<and>
        ((slot_startTime s \<le> data_startTime data \<and> data_startTime data < slot_endTime s) \<or>
         (slot_startTime s < data_endTime data \<and> data_endTime data \<le> slot_endTime s) \<or>
         (data_startTime data \<le> slot_startTime s \<and> slot_endTime s \<le> data_endTime data)))"

definition sameWindowSlot :: "db \<Rightarrow> CreateSlotData \<Rightarrow> bool" where
  "sameWindowSlot d data =
     (\<exists>s \<in> set (deliverySlots d).
        slot_shopName s = data_shopName data \<and> slot_zoneId s = data_zoneId data \<and>
        slot_startTime s = data_startTime data \<and> slot_endTime s = data_endTime data)"

text \<open>
  The values of a slot-creation request fit their columns: the row id, the shop name and
  the zone id have at most 191 characters, the start and end time at most 5, and the
  capacity is a signed 32-bit number.
\<close>

definition requestFits :: "string \<Rightarrow> CreateSlotData \<Rightarrow> bool" where
  "requestFits newId data =
     (length newId \<le> 191 \<and> length (data_shopName data) \<le> 191 \<and>
      length (data_zoneId data) \<le> 191 \<and>
      length (data_startTime data) \<le> 5 \<and> length (data_endTime data) \<le> 5 \<and>
      - 2147483648 \<le> data_capacity data \<and> data_capacity data \<le> 2147483647)"

text \<open>
  For an order-creation webhook.  The slot selected is the slot row with the id of the
  selection; its zone is the zone row with the id the slot refers to.  A blackout record
  applies to a shop and zone when it is a record of the shop that is specific to the
  zone or shop-wide.  Two instants are on the same calendar day, or have the same month
  and day, in the time zone of the host.  A date is blacked out for a shop and zone when
  a record that applies is non-recurring and stored on the same calendar day, or is
  recurring and stored with the same month and day; it has a blackout record on the day
  when a record that applies, recurring or not, is stored on the same calendar day.  The
  recurring records that apply fall on one day when they all have the same month and
  day.  A slot is at capacity on a date when the orders booked on it that day are as
  many as its capacity or more.
\<close>

definition selectedSlot :: "db \<Rightarrow> DeliverySelection \<Rightarrow> DeliverySlot option" where
  "selectedSlot d sel = find (\<lambda>s. slot_id s = selection_slotId sel) (deliverySlots d)"

definition zoneOf :: "db \<Rightarrow> DeliverySlot \<Rightarrow> DeliveryZone option" where
  "zoneOf d slot = find (\<lambda>z. zone_id z = slot_zoneId slot) (deliveryZones d)"











text \<open>
  The data of the insert that the handler issues for a selection: those of
  \<open>orderCreatedData\<close> for the slot selected and the name of its zone.
\<close>

definition orderToCreate ::
  "string \<Rightarrow> string \<Rightarrow> ShopifyOrderCreated \<Rightarrow> DeliverySelection \<Rightarrow> db
     \<Rightarrow> OrderCreateData option" where
  "orderToCreate newId shopName payload sel d =
     (case selectedSlot d sel of
        None \<Rightarrow> None
      | Some slot \<Rightarrow>
          (case zoneOf d slot of
             None \<Rightarrow> None
           | Some z \<Rightarrow> Some (orderCreatedData newId shopName payload sel slot (zone_name z))))"

section \<open>Example data\<close>

definition demoShop :: string where
  "demoShop = ''demo.myshopify.com''"

definition zoneBD :: DeliveryZone where
  "zoneBD = \<lparr> zone_id = ''zone-bd'', zone_shopName = demoShop, zone_name = ''BD'',
              zone_shippingRate = 60, zone_isActive = True \<rparr>"

definition slotMorning :: DeliverySlot where
  "slotMorning = \<lparr> slot_id = ''slot-am'', slot_shopName = demoShop,
                   slot_startTime = ''09:00'', slot_endTime = ''11:00'', slot_capacity = 2,
                   slot_currentOrders = 0, slot_isActive = True, slot_zoneId = ''zone-bd'' \<rparr>"

definition slotNoon :: DeliverySlot where
  "slotNoon = \<lparr> slot_id = ''slot-pm'', slot_shopName = demoShop,
                slot_startTime = ''11:00'', slot_endTime = ''13:00'', slot_capacity = 1,
                slot_currentOrders = 2, slot_isActive = True, slot_zoneId = ''zone-bd'' \<rparr>"

definition emptyDb :: db where
  "emptyDb = \<lparr> shops = [demoShop], deliveryZones = [zoneBD], deliverySlots = [],
               blackoutDates = [], orders = [], shopSettings = [], outage = {} \<rparr>"

definition twoSlotsDb :: db where
  "twoSlotsDb = emptyDb\<lparr>deliverySlots := [slotMorning, slotNoon]\<rparr>"

text \<open>Midnight UTC of 25 December 2024, 1 January 2025, 25 December 2025, 1 January 2026.\<close>

definition dec25_2024 :: Date where "dec25_2024 = 1735084800000"
definition jan01_2025 :: Date where "jan01_2025 = 1735689600000"
definition dec25_2025 :: Date where "dec25_2025 = 1766620800000"
definition jan01_2026 :: Date where "jan01_2026 = 1767225600000"

definition blackoutChristmas :: BlackoutDate where
  "blackoutChristmas = \<lparr> blackout_id = ''bo-xmas'', blackout_shopName = demoShop,
       blackout_date = dec25_2024, blackout_isRecurring = True, blackout_zoneId = None \<rparr>"

definition blackoutNewYear :: BlackoutDate where
  "blackoutNewYear = \<lparr> blackout_id = ''bo-ny'', blackout_shopName = demoShop,
       blackout_date = jan01_2025, blackout_isRecurring = True, blackout_zoneId = None \<rparr>"

definition recurringDb :: db where
  "recurringDb = twoSlotsDb\<lparr>blackoutDates := [blackoutChristmas, blackoutNewYear]\<rparr>"

definition orderConfirmed :: Order where
  "orderConfirmed = \<lparr> order_id = ''order-1'', order_shopName = demoShop,
       order_shopifyOrderId = ''1001'', order_customerEmail = ''a@example.com'',
       order_deliverySlotId = ''slot-pm'', order_deliveryDate = dec25_2025,
       order_status = CONFIRMED \<rparr>"

definition orderCancelled :: Order where
  "orderCancelled = \<lparr> order_id = ''order-2'', order_shopName = demoShop,
       order_shopifyOrderId = ''1002'', order_customerEmail = ''b@example.com'',
       order_deliverySlotId = ''slot-pm'', order_deliveryDate = dec25_2025,
       order_status = CANCELLED \<rparr>"

definition bookedDb :: db where
  "bookedDb = twoSlotsDb\<lparr>orders := [orderConfirmed, orderCancelled]\<rparr>"

definition blackoutOnce :: BlackoutDate where
  "blackoutOnce = \<lparr> blackout_id = ''bo-once'', blackout_shopName = demoShop,
       blackout_date = dec25_2025, blackout_isRecurring = False,
       blackout_zoneId = Some ''zone-bd'' \<rparr>"

definition closedDb :: db where
  "closedDb = bookedDb\<lparr>blackoutDates := [blackoutOnce]\<rparr>"

definition requestLate :: CreateSlotData where
  "requestLate = \<lparr> data_shopName = demoShop, data_startTime = ''10:00'',
       data_endTime = ''12:00'', data_capacity = 5, data_zoneId = ''zone-bd'' \<rparr>"

definition requestMorning :: CreateSlotData where
  "requestMorning = \<lparr> data_shopName = demoShop, data_startTime = ''09:00'',
       data_endTime = ''11:00'', data_capacity = 5, data_zoneId = ''zone-bd'' \<rparr>"

definition inactiveZoneDb :: db where
  "inactiveZoneDb = twoSlotsDb\<lparr>deliveryZones := [zoneBD\<lparr>zone_isActive := False\<rparr>]\<rparr>"

definition retiredSlotDb :: db where
  "retiredSlotDb = emptyDb\<lparr>deliverySlots := [slotMorning\<lparr>slot_isActive := False\<rparr>]\<rparr>"




text \<open>Order 1001, booked on the morning slot for 25 December 2025, is already recorded.\<close>

definition orderMorning :: Order where
  "orderMorning = \<lparr> order_id = ''order-1'', order_shopName = demoShop,
       order_shopifyOrderId = ''1001'', order_customerEmail = ''a@example.com'',
       order_deliverySlotId = ''slot-am'', order_deliveryDate = dec25_2025,
       order_status = CONFIRMED \<rparr>"

definition redeliveryDb :: db where
  "redeliveryDb = twoSlotsDb\<lparr>orders := [orderMorning]\<rparr>"

text \<open>
  A request with a capacity beyond 32 bits, and one with times written with seconds.
\<close>

definition requestHuge :: CreateSlotData where
  "requestHuge = \<lparr> data_shopName = demoShop, data_startTime = ''14:00'',
       data_endTime = ''16:00'', data_capacity = 2147483648, data_zoneId = ''zone-bd'' \<rparr>"

definition requestSeconds :: CreateSlotData where
  "requestSeconds = \<lparr> data_shopName = demoShop, data_startTime = ''14:00:00'',
       data_endTime = ''16:00:00'', data_capacity = 5, data_zoneId = ''zone-bd'' \<rparr>"




definition orderMorning2 :: Order where
  "orderMorning2 = \<lparr> order_id = ''order-4'', order_shopName = demoShop,
       order_shopifyOrderId = ''1004'', order_customerEmail = ''d@example.com'',
       order_deliverySlotId = ''slot-am'', order_deliveryDate = dec25_2025,
       order_status = CONFIRMED \<rparr>"

definition fullMorningDb :: db where
  "fullMorningDb = twoSlotsDb\<lparr>orders := [orderMorning, orderMorning2]\<rparr>"

definition christmasDb :: db where
  "christmasDb = twoSlotsDb\<lparr>blackoutDates := [blackoutChristmas]\<rparr>"

definition cancelledMorningDb :: db where
  "cancelledMorningDb =
     twoSlotsDb\<lparr>orders := [orderMorning, orderMorning2\<lparr>order_status := CANCELLED\<rparr>]\<rparr>"



section \<open>Lists\<close>

lemma find_SomeD: "find P xs = Some x \<Longrightarrow> x \<in> set xs \<and> P x"
  by (induction xs) (auto split: if_splits)

lemma find_Some_ex: "(\<exists>x. find P xs = Some x) \<longleftrightarrow> (\<exists>x \<in> set xs. P x)"
  by (induction xs) auto

lemma find_None_all: "find P xs = None \<longleftrightarrow> \<not> (\<exists>x \<in> set xs. P x)"
  by (induction xs) auto

lemma find_append_new:
  "find P xs = None \<Longrightarrow> P x \<Longrightarrow> find P (xs @ [x]) = Some x"
  by (induction xs) (auto split: if_splits)





section \<open>The example databases answer every query\<close>

lemma examples_up:
  "outage emptyDb = {}" "outage twoSlotsDb = {}" "outage inactiveZoneDb = {}"
  "outage bookedDb = {}" "outage recurringDb = {}" "outage closedDb = {}"
  "outage redeliveryDb = {}" "outage fullMorningDb = {}" "outage cancelledMorningDb = {}"
  "outage christmasDb = {}"
  by (simp_all add: emptyDb_def twoSlotsDb_def inactiveZoneDb_def bookedDb_def recurringDb_def
        closedDb_def redeliveryDb_def fullMorningDb_def cancelledMorningDb_def christmasDb_def)

section \<open>Decimal digits\<close>

lemma digit_of_char: "k < 10 \<Longrightarrow> (of_char (char_of (48 + k :: nat)) :: nat) = 48 + k"
  by (simp add: of_char_of)

lemma digit_isDigit: "k < 10 \<Longrightarrow> isDigit (char_of (48 + k :: nat))"
  by (simp add: isDigit_def digit_of_char)

lemma digit_not_colon: "k < 10 \<Longrightarrow> char_of (48 + k :: nat) \<noteq> CHR '':''"
proof
  assume k: "k < 10" and eq: "char_of (48 + k) = CHR '':''"
  have "(of_char (char_of (48 + k)) :: nat) = of_char CHR '':''" using eq by simp
  then show False using k by (simp add: digit_of_char)
qed

lemma Number_twoDigits: "n < 100 \<Longrightarrow> Number (twoDigits n) = Some n"
proof -
  assume n: "n < 100"
  then have a: "n div 10 < 10" and b: "n mod 10 < 10" by auto
  show ?thesis
    using a b by (simp add: Number_def twoDigits_def digit_isDigit digit_of_char)
qed

lemma split_colon_HHMM:
  "h < 100 \<Longrightarrow> m < 100 \<Longrightarrow> split_colon (HHMM h m) = [twoDigits h, twoDigits m]"
proof -
  assume h: "h < 100" and m: "m < 100"
  then have "h div 10 < 10" "h mod 10 < 10" "m div 10 < 10" "m mod 10 < 10" by auto
  then show ?thesis
    by (simp add: HHMM_def twoDigits_def digit_not_colon)
qed

lemma hourMinute_HHMM: "h < 100 \<Longrightarrow> m < 100 \<Longrightarrow> hourMinute (HHMM h m) = Some (h, m)"
  by (simp add: hourMinute_def split_colon_HHMM Number_twoDigits)

section \<open>The cutoff check\<close>

text \<open>
  Claim C7.  The cutoff check compares minutes since midnight: for an end time and a
  cutoff time written as \<open>HH:MM\<close> (two decimal digits, a colon, two decimal digits),
  \<open>isSlotPastCutoff\<close> is true exactly when the hours times 60 plus the minutes of the end
  time are strictly greater than those of the cutoff time; a slot that ends exactly at
  the cutoff is not past it.
\<close>

theorem isSlotPastCutoff_compares_minutes:
  assumes "slotHour < 100" "slotMinute < 100" "cutoffHour < 100" "cutoffMinute < 100"
  shows "isSlotPastCutoff (HHMM slotHour slotMinute) (HHMM cutoffHour cutoffMinute)
           = Some (slotHour * 60 + slotMinute > cutoffHour * 60 + cutoffMinute)
         \<and> isSlotPastCutoff (HHMM cutoffHour cutoffMinute) (HHMM cutoffHour cutoffMinute)
           = Some False"
  using assms by (simp add: isSlotPastCutoff_def hourMinute_HHMM)

theorem isSlotPastCutoff_compares_minutes_witness:
  "(14::nat) < 100 \<and> (30::nat) < 100 \<and> (0::nat) < 100
   \<and> isSlotPastCutoff ''14:30'' ''14:00'' = Some True
   \<and> isSlotPastCutoff ''14:00'' ''14:00'' = Some False"
proof -
  have f: "HHMM 14 30 = ''14:30''" "HHMM 14 0 = ''14:00''"
    by code_simp+
  show ?thesis
    using isSlotPastCutoff_compares_minutes [of 14 30 14 0] by (simp add: f)
qed

section \<open>Zones by country code\<close>

text \<open>
  Claim C6.  A zone is looked up by country code.  When the query is answered,
  \<open>getZoneByCountryCode\<close> returns a zone exactly when the shop has an active delivery
  zone whose name equals the country code; the zone it returns is such a zone; and it
  returns null exactly when there is none.  When it returns null for the parameters of
  the request, the zones endpoint answers 404 with the error
  \<open>No delivery zone found for this country\<close>.
\<close>

theorem getZoneByCountryCode_keyed_by_country_code:
  assumes "Q_zoneByCountryCode \<notin> outage d"
  shows "((\<exists>z. getZoneByCountryCode d shopName countryCode = Inr (Some z))
            \<longleftrightarrow> (\<exists>z \<in> set (deliveryZones d).
                   zone_shopName z = shopName \<and> zone_name z = countryCode \<and> zone_isActive z))
       \<and> (\<forall>z. getZoneByCountryCode d shopName countryCode = Inr (Some z)
               \<longrightarrow> z \<in> set (deliveryZones d)
                 \<and> zone_shopName z = shopName \<and> zone_name z = countryCode \<and> zone_isActive z)
       \<and> (getZoneByCountryCode d shopName countryCode = Inr None
            \<longleftrightarrow> \<not> (\<exists>z \<in> set (deliveryZones d).
                     zone_shopName z = shopName \<and> zone_name z = countryCode \<and> zone_isActive z))
       \<and> (countryCode \<noteq> [] \<and> shopName \<noteq> []
            \<and> getZoneByCountryCode d shopName countryCode = Inr None
            \<longrightarrow> DeliveryZones_loader d (Some countryCode) (Some shopName)
                  = \<lparr>response_status = 404,
                     response_body = ErrorJson ''No delivery zone found for this country''\<rparr>)"
proof -
  let ?P = "\<lambda>z. zone_shopName z = shopName \<and> zone_name z = countryCode \<and> zone_isActive z"
  have eq: "getZoneByCountryCode d shopName countryCode = Inr (find ?P (deliveryZones d))"
    using assms by (simp add: getZoneByCountryCode_def query_def)
  have a: "(\<exists>z. getZoneByCountryCode d shopName countryCode = Inr (Some z))
             \<longleftrightarrow> (\<exists>z \<in> set (deliveryZones d). ?P z)"
    unfolding eq sum.inject by (rule find_Some_ex)
  have b: "\<forall>z. getZoneByCountryCode d shopName countryCode = Inr (Some z)
             \<longrightarrow> z \<in> set (deliveryZones d) \<and> ?P z"
    unfolding eq sum.inject using find_SomeD [of ?P "deliveryZones d"] by blast
  have c: "getZoneByCountryCode d shopName countryCode = Inr None
             \<longleftrightarrow> \<not> (\<exists>z \<in> set (deliveryZones d). ?P z)"
    unfolding eq sum.inject by (rule find_None_all)
  have l: "countryCode \<noteq> [] \<and> shopName \<noteq> []
            \<and> getZoneByCountryCode d shopName countryCode = Inr None
            \<longrightarrow> DeliveryZones_loader d (Some countryCode) (Some shopName)
                  = \<lparr>response_status = 404,
                     response_body = ErrorJson ''No delivery zone found for this country''\<rparr>"
    by (simp add: DeliveryZones_loader_def falsy_def)
  show ?thesis by (intro conjI a b c l)
qed

theorem getZoneByCountryCode_keyed_by_country_code_witness:
  "Q_zoneByCountryCode \<notin> outage emptyDb
   \<and> getZoneByCountryCode emptyDb demoShop ''US'' = Inr None
   \<and> DeliveryZones_loader emptyDb (Some ''US'') (Some demoShop)
       = \<lparr>response_status = 404,
          response_body = ErrorJson ''No delivery zone found for this country''\<rparr>
   \<and> (\<exists>z. getZoneByCountryCode emptyDb demoShop ''BD'' = Inr (Some z))"
proof -
  have h: "Q_zoneByCountryCode \<notin> outage emptyDb"
    by (simp add: emptyDb_def)
  have n: "\<not> (\<exists>z \<in> set (deliveryZones emptyDb).
              zone_shopName z = demoShop \<and> zone_name z = ''US'' \<and> zone_isActive z)"
    by (simp add: emptyDb_def zoneBD_def)
  have y: "\<exists>z \<in> set (deliveryZones emptyDb).
              zone_shopName z = demoShop \<and> zone_name z = ''BD'' \<and> zone_isActive z"
    by (simp add: emptyDb_def zoneBD_def)
  have s: "''US'' \<noteq> []" "demoShop \<noteq> []"
    by (simp_all add: demoShop_def)
  note us = getZoneByCountryCode_keyed_by_country_code [OF h, of demoShop "''US''"]
  note bd = getZoneByCountryCode_keyed_by_country_code [OF h, of demoShop "''BD''"]
  have null: "getZoneByCountryCode emptyDb demoShop ''US'' = Inr None"
    using us n by (elim conjE) (rule iffD2)
  have resp: "DeliveryZones_loader emptyDb (Some ''US'') (Some demoShop)
       = \<lparr>response_status = 404,
          response_body = ErrorJson ''No delivery zone found for this country''\<rparr>"
    using us s null by (elim conjE) (erule mp, intro conjI)
  have found: "\<exists>z. getZoneByCountryCode emptyDb demoShop ''BD'' = Inr (Some z)"
    using bd y by (elim conjE) (rule iffD2)
  from h null resp found show ?thesis by (intro conjI)
qed

section \<open>Shop settings\<close>

lemma getShopSettings_existing:
  "Q_settings_findUnique \<notin> outage d \<Longrightarrow>
   find (\<lambda>s. settings_shopName s = shopName) (shopSettings d) = Some s \<Longrightarrow>
   getShopSettings newId d shopName = (Some s, d)"
  by (simp add: getShopSettings_def query_def)

text \<open>
  Claim C8.  For a shop name without a settings row: when no database operation fails
  (both queries are answered and the insert is accepted: the row id is new and the shop
  is a row of \<open>shops\<close>), \<open>getShopSettings\<close> inserts and returns a row with cutoffTime
  \<open>14:00\<close>, maxDaysInAdvance 30 and enableSameDayDelivery false, and a second call
  returns that same row and changes nothing.  It returns null only when one of these
  operations fails, and then the database is unchanged.
\<close>

theorem getShopSettings_creates_defaults:
  assumes "shopName \<notin> set (map settings_shopName (shopSettings d))"
  shows "(Q_settings_findUnique \<notin> outage d \<and> Q_settings_create \<notin> outage d
            \<and> newId \<notin> set (map settings_id (shopSettings d)) \<and> shopName \<in> set (shops d)
          \<longrightarrow> (\<exists>s. getShopSettings newId d shopName
                       = (Some s, d\<lparr>shopSettings := shopSettings d @ [s]\<rparr>)
                  \<and> settings_shopName s = shopName
                  \<and> settings_cutoffTime s = ''14:00''
                  \<and> settings_maxDaysInAdvance s = 30
                  \<and> settings_enableSameDayDelivery s = False
                  \<and> getShopSettings otherId (snd (getShopSettings newId d shopName)) shopName
                      = (Some s, snd (getShopSettings newId d shopName))))
       \<and> (fst (getShopSettings newId d shopName) = None
          \<longrightarrow> snd (getShopSettings newId d shopName) = d
            \<and> (Q_settings_findUnique \<in> outage d \<or> Q_settings_create \<in> outage d
                 \<or> newId \<in> set (map settings_id (shopSettings d)) \<or> shopName \<notin> set (shops d)))"
proof -
  let ?row = "\<lparr> settings_id = newId, settings_shopName = shopName,
                 settings_cutoffTime = ''14:00'', settings_maxDaysInAdvance = 30,
                 settings_enableSameDayDelivery = False, settings_timezone = ''UTC'' \<rparr>"
  let ?P = "\<lambda>s. settings_shopName s = shopName"
  have none: "find ?P (shopSettings d) = None"
    using assms by (auto simp: find_None_all)
  have acc: "shopSettings_accepts d ?row \<longleftrightarrow>
               newId \<notin> set (map settings_id (shopSettings d)) \<and> shopName \<in> set (shops d)"
    using assms by (simp add: shopSettings_accepts_def)
  have first: "Q_settings_findUnique \<notin> outage d \<and> Q_settings_create \<notin> outage d
            \<and> newId \<notin> set (map settings_id (shopSettings d)) \<and> shopName \<in> set (shops d)
          \<longrightarrow> (\<exists>s. getShopSettings newId d shopName
                       = (Some s, d\<lparr>shopSettings := shopSettings d @ [s]\<rparr>)
                  \<and> settings_shopName s = shopName
                  \<and> settings_cutoffTime s = ''14:00''
                  \<and> settings_maxDaysInAdvance s = 30
                  \<and> settings_enableSameDayDelivery s = False
                  \<and> getShopSettings otherId (snd (getShopSettings newId d shopName)) shopName
                      = (Some s, snd (getShopSettings newId d shopName)))"
  proof
    assume ok: "Q_settings_findUnique \<notin> outage d \<and> Q_settings_create \<notin> outage d
            \<and> newId \<notin> set (map settings_id (shopSettings d)) \<and> shopName \<in> set (shops d)"
    let ?d' = "d\<lparr>shopSettings := shopSettings d @ [?row]\<rparr>"
    have r: "getShopSettings newId d shopName = (Some ?row, ?d')"
      using ok none acc by (simp add: getShopSettings_def query_def shopSettings_create_def)
    have "find ?P (shopSettings ?d') = Some ?row"
      using none by (simp add: find_append_new)
    moreover have "Q_settings_findUnique \<notin> outage ?d'" using ok by simp
    ultimately have again: "getShopSettings otherId ?d' shopName = (Some ?row, ?d')"
      by (intro getShopSettings_existing)
    show "\<exists>s. getShopSettings newId d shopName
                       = (Some s, d\<lparr>shopSettings := shopSettings d @ [s]\<rparr>)
                  \<and> settings_shopName s = shopName
                  \<and> settings_cutoffTime s = ''14:00''
                  \<and> settings_maxDaysInAdvance s = 30
                  \<and> settings_enableSameDayDelivery s = False
                  \<and> getShopSettings otherId (snd (getShopSettings newId d shopName)) shopName
                      = (Some s, snd (getShopSettings newId d shopName))"
      using r again by (intro exI [of _ ?row]) simp
  qed
  have second: "fst (getShopSettings newId d shopName) = None
          \<longrightarrow> snd (getShopSettings newId d shopName) = d
            \<and> (Q_settings_findUnique \<in> outage d \<or> Q_settings_create \<in> outage d
                 \<or> newId \<in> set (map settings_id (shopSettings d)) \<or> shopName \<notin> set (shops d))"
    using none acc
    by (auto simp add: getShopSettings_def query_def shopSettings_create_def split: if_splits)
  show ?thesis by (intro conjI first second)
qed

theorem getShopSettings_creates_defaults_witness:
  "demoShop \<notin> set (map settings_shopName (shopSettings emptyDb))
   \<and> (\<exists>s. getShopSettings ''settings-1'' emptyDb demoShop
              = (Some s, emptyDb\<lparr>shopSettings := shopSettings emptyDb @ [s]\<rparr>)
          \<and> settings_cutoffTime s = ''14:00''
          \<and> settings_maxDaysInAdvance s = 30
          \<and> settings_enableSameDayDelivery s = False
          \<and> getShopSettings ''settings-2''
               (snd (getShopSettings ''settings-1'' emptyDb demoShop)) demoShop
              = (Some s, snd (getShopSettings ''settings-1'' emptyDb demoShop)))
   \<and> fst (getShopSettings ''settings-1'' emptyDb ''unknown.myshopify.com'') = None
   \<and> snd (getShopSettings ''settings-1'' emptyDb ''unknown.myshopify.com'') = emptyDb"
proof -
  have h: "demoShop \<notin> set (map settings_shopName (shopSettings emptyDb))"
      "''settings-1'' \<notin> set (map settings_id (shopSettings emptyDb))"
      "demoShop \<in> set (shops emptyDb)"
      "''unknown.myshopify.com'' \<notin> set (map settings_shopName (shopSettings emptyDb))"
    by (simp_all add: emptyDb_def)
  have k: "fst (getShopSettings ''settings-1'' emptyDb ''unknown.myshopify.com'') = None"
    by code_simp
  note t = getShopSettings_creates_defaults [OF h(1), of "''settings-1''" "''settings-2''"]
  note u = getShopSettings_creates_defaults [OF h(4), of "''settings-1''" "''settings-2''"]
  have a: "\<exists>s. getShopSettings ''settings-1'' emptyDb demoShop
              = (Some s, emptyDb\<lparr>shopSettings := shopSettings emptyDb @ [s]\<rparr>)
          \<and> settings_cutoffTime s = ''14:00''
          \<and> settings_maxDaysInAdvance s = 30
          \<and> settings_enableSameDayDelivery s = False
          \<and> getShopSettings ''settings-2''
               (snd (getShopSettings ''settings-1'' emptyDb demoShop)) demoShop
              = (Some s, snd (getShopSettings ''settings-1'' emptyDb demoShop))"
    using t h(2,3) by (auto simp add: examples_up)
  have b: "snd (getShopSettings ''settings-1'' emptyDb ''unknown.myshopify.com'') = emptyDb"
    using u k by blast
  show ?thesis by (intro conjI h(1) a k b)
qed

section \<open>Booking counts\<close>








section \<open>Blackout dates\<close>

text \<open>
  Claim C3 at a failing input.  The shop has two recurring shop-wide blackout dates, 25
  December and 1 January, stored in that order, and the host runs on UTC.  The second
  query of \<open>isDateBlackedOut\<close> takes the first recurring row only, so 1 January 2026,
  whose month and day equal those of the stored 1 January, is not reported as blacked
  out: \<open>getAvailableSlots\<close> returns slots and \<open>isSlotAvailableForDate\<close> is true.  25
  December 2025 is reported; with the rows in the other order it is the one missed.
\<close>

theorem isDateBlackedOut_misses_later_recurring_blackout:
  "blackoutNewYear \<in> set (blackoutDates recurringDb)
   \<and> blackout_isRecurring blackoutNewYear
   \<and> blackout_shopName blackoutNewYear = demoShop
   \<and> blackout_zoneId blackoutNewYear = None
   \<and> getMonth 0 (blackout_date blackoutNewYear) = getMonth 0 jan01_2026
   \<and> getDate 0 (blackout_date blackoutNewYear) = getDate 0 jan01_2026
   \<and> \<not> isDateBlackedOut 0 recurringDb demoShop jan01_2026 (Some ''zone-bd'')
   \<and> getAvailableSlots 0 recurringDb demoShop jan01_2026 ''zone-bd'' \<noteq> Inr []
   \<and> isSlotAvailableForDate 0 recurringDb ''slot-am'' jan01_2026
   \<and> isDateBlackedOut 0 recurringDb demoShop dec25_2025 (Some ''zone-bd'')
   \<and> \<not> isDateBlackedOut 0 (recurringDb\<lparr>blackoutDates := [blackoutNewYear, blackoutChristmas]\<rparr>)
          demoShop dec25_2025 (Some ''zone-bd'')"
  by code_simp

section \<open>Available slots\<close>





section \<open>Failing open\<close>

text \<open>
  Claim C9.  The availability checks fail open.  When the first blackout query throws,
  or finds nothing and the second one throws, \<open>isDateBlackedOut\<close> returns false; when
  the count query throws, \<open>getSlotBookingsForDate\<close> returns 0, so a slot is listed with
  no bookings and its whole capacity available.  This holds whatever the tables contain:
  also for a date that is blacked out and a slot that is fully booked.
\<close>

theorem availability_checks_fail_open:
  "(Q_exactDateBlackout \<in> outage d \<longrightarrow> \<not> isDateBlackedOut tz d shopName date zoneId)
   \<and> (exactDateBlackout tz d shopName date zoneId = None \<and> Q_recurringBlackout \<in> outage d
        \<longrightarrow> \<not> isDateBlackedOut tz d shopName date zoneId)
   \<and> (Q_orderCount \<in> outage d
        \<longrightarrow> getSlotBookingsForDate d slotId date = 0
          \<and> currentBookings (withBookings d date slot) = 0
          \<and> availableCapacity (withBookings d date slot) = slot_capacity slot)"
proof -
  have a: "Q_exactDateBlackout \<in> outage d \<longrightarrow> \<not> isDateBlackedOut tz d shopName date zoneId"
    by (simp add: isDateBlackedOut_def query_def)
  have b: "exactDateBlackout tz d shopName date zoneId = None \<and> Q_recurringBlackout \<in> outage d
        \<longrightarrow> \<not> isDateBlackedOut tz d shopName date zoneId"
    by (simp add: isDateBlackedOut_def query_def)
  have n: "Q_orderCount \<in> outage d \<Longrightarrow> getSlotBookingsForDate d s date = 0" for s
    by (simp add: getSlotBookingsForDate_def query_def Let_def)
  have c: "Q_orderCount \<in> outage d
        \<longrightarrow> getSlotBookingsForDate d slotId date = 0
          \<and> currentBookings (withBookings d date slot) = 0
          \<and> availableCapacity (withBookings d date slot) = slot_capacity slot"
    by (simp add: n withBookings_def Let_def)
  show ?thesis by (intro conjI a b c)
qed

theorem availability_checks_fail_open_witness:
  "isDateBlackedOut 0 closedDb demoShop dec25_2025 (Some ''zone-bd'')
   \<and> \<not> isDateBlackedOut 0 (closedDb\<lparr>outage := {Q_exactDateBlackout, Q_orderCount}\<rparr>)
         demoShop dec25_2025 (Some ''zone-bd'')
   \<and> getSlotBookingsForDate closedDb ''slot-pm'' dec25_2025 = slot_capacity slotNoon
   \<and> getSlotBookingsForDate (closedDb\<lparr>outage := {Q_exactDateBlackout, Q_orderCount}\<rparr>)
        ''slot-pm'' dec25_2025 = 0
   \<and> availableCapacity
        (withBookings (closedDb\<lparr>outage := {Q_exactDateBlackout, Q_orderCount}\<rparr>) dec25_2025 slotNoon)
       = slot_capacity slotNoon
   \<and> isDateBlackedOut 0 recurringDb demoShop dec25_2025 (Some ''zone-bd'')
   \<and> exactDateBlackout 0 (recurringDb\<lparr>outage := {Q_recurringBlackout}\<rparr>) demoShop dec25_2025
        (Some ''zone-bd'') = None
   \<and> \<not> isDateBlackedOut 0 (recurringDb\<lparr>outage := {Q_recurringBlackout}\<rparr>)
         demoShop dec25_2025 (Some ''zone-bd'')"
proof -
  let ?down = "closedDb\<lparr>outage := {Q_exactDateBlackout, Q_orderCount}\<rparr>"
  let ?half = "recurringDb\<lparr>outage := {Q_recurringBlackout}\<rparr>"
  have healthy: "isDateBlackedOut 0 closedDb demoShop dec25_2025 (Some ''zone-bd'')"
      "getSlotBookingsForDate closedDb ''slot-pm'' dec25_2025 = slot_capacity slotNoon"
      "isDateBlackedOut 0 recurringDb demoShop dec25_2025 (Some ''zone-bd'')"
      "exactDateBlackout 0 ?half demoShop dec25_2025 (Some ''zone-bd'') = None"
    by code_simp+
  have o: "Q_exactDateBlackout \<in> outage ?down" "Q_orderCount \<in> outage ?down"
      "Q_recurringBlackout \<in> outage ?half"
    by simp_all
  note t = availability_checks_fail_open
             [of ?down 0 demoShop dec25_2025 "Some ''zone-bd''" "''slot-pm''" slotNoon]
  note u = availability_checks_fail_open
             [of ?half 0 demoShop dec25_2025 "Some ''zone-bd''" "''slot-pm''" slotNoon]
  have a: "\<not> isDateBlackedOut 0 ?down demoShop dec25_2025 (Some ''zone-bd'')"
    using t o(1) by blast
  have b: "getSlotBookingsForDate ?down ''slot-pm'' dec25_2025 = 0"
      "availableCapacity (withBookings ?down dec25_2025 slotNoon) = slot_capacity slotNoon"
    using t o(2) by blast+
  have c: "\<not> isDateBlackedOut 0 ?half demoShop dec25_2025 (Some ''zone-bd'')"
    using u o(3) healthy(4) by blast
  show ?thesis by (intro conjI healthy a b c)
qed

section \<open>Creating a slot\<close>

lemma lex_pair_10:
  fixes a b a' b' :: nat
  assumes "b < 10" "b' < 10"
  shows "(a < a' \<or> a = a' \<and> b < b') \<longleftrightarrow> a * 10 + b < a' * 10 + b'"
  using assms by linarith

lemma lex_pair_60:
  fixes a b a' b' :: nat
  assumes "b < 60" "b' < 60"
  shows "(a < a' \<or> a = a' \<and> b < b') \<longleftrightarrow> a * 60 + b < a' * 60 + b'"
  using assms by linarith

lemma digit_less_iff:
  "a < 10 \<Longrightarrow> b < 10 \<Longrightarrow> char_of (48 + a :: nat) < char_of (48 + b :: nat) \<longleftrightarrow> a < b"
  by (simp add: less_char_def digit_of_char)

lemma digit_eq_iff:
  assumes "a < 10" and "b < 10"
  shows "char_of (48 + a :: nat) = char_of (48 + b :: nat) \<longleftrightarrow> a = b"
proof
  assume e: "char_of (48 + a) = char_of (48 + b)"
  have "(of_char (char_of (48 + a)) :: nat) = of_char (char_of (48 + b))"
    by (simp only: e)
  then show "a = b" using assms by (simp add: digit_of_char)
next
  assume "a = b"
  then show "char_of (48 + a) = char_of (48 + b)" by (simp only:)
qed

lemma two_chars_less:
  "[c1, c0] @ xs < [e1, e0] @ ys \<longleftrightarrow> c1 < e1 \<or> c1 = e1 \<and> (c0 < e0 \<or> c0 = e0 \<and> xs < ys)"
  by simp

lemma twoDigits_append_less:
  assumes "n < 100" and "n' < 100"
  shows "twoDigits n @ xs < twoDigits n' @ ys \<longleftrightarrow> n < n' \<or> n = n' \<and> xs < ys"
proof -
  have d: "n div 10 < 10" "n mod 10 < 10" "n' div 10 < 10" "n' mod 10 < 10"
    using assms by auto
  have n: "n = n div 10 * 10 + n mod 10" and n': "n' = n' div 10 * 10 + n' mod 10"
    by simp_all
  have "twoDigits n @ xs < twoDigits n' @ ys \<longleftrightarrow>
          n div 10 < n' div 10 \<or>
          n div 10 = n' div 10 \<and> (n mod 10 < n' mod 10 \<or> n mod 10 = n' mod 10 \<and> xs < ys)"
    unfolding twoDigits_def two_chars_less
    by (simp only: digit_less_iff [OF d(1) d(3)] digit_less_iff [OF d(2) d(4)]
          digit_eq_iff [OF d(1) d(3)] digit_eq_iff [OF d(2) d(4)])
  also have "\<dots> \<longleftrightarrow> n < n' \<or> n = n' \<and> xs < ys"
  proof -
    have l: "(n div 10 < n' div 10 \<or> n div 10 = n' div 10 \<and> n mod 10 < n' mod 10) \<longleftrightarrow> n < n'"
      using lex_pair_10 [OF d(2) d(4), of "n div 10" "n' div 10"] n n' by presburger
    have e: "(n div 10 = n' div 10 \<and> n mod 10 = n' mod 10) \<longleftrightarrow> n = n'"
      using n n' by metis
    show ?thesis using l e by blast
  qed
  finally show ?thesis .
qed

lemma HHMM_less_pair:
  assumes "h < 100" "m < 100" "h' < 100" "m' < 100"
  shows "HHMM h m < HHMM h' m' \<longleftrightarrow> h < h' \<or> h = h' \<and> m < m'"
proof -
  have "twoDigits m < twoDigits m' \<longleftrightarrow> m < m'"
    using twoDigits_append_less [OF assms(2,4), of "[]" "[]"] by simp
  then show ?thesis
    by (simp add: HHMM_def twoDigits_append_less [OF assms(1,3)])
qed

lemma HHMM_less_iff:
  assumes "h < 100" "m < 60" "h' < 100" "m' < 60"
  shows "HHMM h m < HHMM h' m' \<longleftrightarrow> h * 60 + m < h' * 60 + m'"
proof -
  have "HHMM h m < HHMM h' m' \<longleftrightarrow> h < h' \<or> h = h' \<and> m < m'"
    using assms by (intro HHMM_less_pair) simp_all
  also have "\<dots> \<longleftrightarrow> h * 60 + m < h' * 60 + m'"
    using assms(2,4) by (rule lex_pair_60)
  finally show ?thesis .
qed

lemma HHMM_le_iff:
  assumes "h < 100" "m < 60" "h' < 100" "m' < 60"
  shows "HHMM h m \<le> HHMM h' m' \<longleftrightarrow> h * 60 + m \<le> h' * 60 + m'"
proof -
  have "HHMM h m \<le> HHMM h' m' \<longleftrightarrow> \<not> HHMM h' m' < HHMM h m"
    by (simp only: not_less)
  also have "\<dots> \<longleftrightarrow> \<not> h' * 60 + m' < h * 60 + m"
    by (simp only: HHMM_less_iff [OF assms(3,4,1,2)])
  also have "\<dots> \<longleftrightarrow> h * 60 + m \<le> h' * 60 + m'"
    by (simp only: not_less)
  finally show ?thesis .
qed

lemma existingSlots_empty:
  "existingSlots d data = [] \<longleftrightarrow> \<not> overlappingSlot d data"
  by (auto simp add: existingSlots_def overlappingSlot_def overlapsRequest_def filter_empty_conv)

lemma zone_lookup:
  "(find (\<lambda>z. zone_id z = data_zoneId data \<and> zone_shopName z = data_shopName data \<and>
               zone_isActive z) (deliveryZones d) = None) \<longleftrightarrow> \<not> validZone d data"
  unfolding validZone_def by (rule find_None_all)

lemma createDeliverySlot_invalid_zone:
  assumes "Q_createSlot_zone \<notin> outage d" and "\<not> validZone d data"
  shows "createDeliverySlot newId d data = (Inl (Error ''Invalid delivery zone for this shop''), d)"
proof -
  have "find (\<lambda>z. zone_id z = data_zoneId data \<and> zone_shopName z = data_shopName data \<and>
               zone_isActive z) (deliveryZones d) = None"
    using assms(2) zone_lookup [of data d] by blast
  then show ?thesis using assms(1) by (simp add: createDeliverySlot_def query_def)
qed

lemma createDeliverySlot_valid_zone:
  assumes "Q_createSlot_zone \<notin> outage d" and "Q_createSlot_existingSlots \<notin> outage d"
    and "validZone d data"
  shows "createDeliverySlot newId d data =
           (if overlappingSlot d data
            then (Inl (Error ''Time slot overlaps with existing slot''), d)
            else deliverySlot_create d Q_createSlot_create
                      \<lparr> slot_id = newId,
                        slot_shopName = data_shopName data,
                        slot_startTime = data_startTime data,
                        slot_endTime = data_endTime data,
                        slot_capacity = data_capacity data,
                        slot_currentOrders = 0,
                        slot_isActive = True,
                        slot_zoneId = data_zoneId data \<rparr>)"
proof -
  have "find (\<lambda>z. zone_id z = data_zoneId data \<and> zone_shopName z = data_shopName data \<and>
               zone_isActive z) (deliveryZones d) \<noteq> None"
    using assms(3) zone_lookup [of data d] by blast
  then obtain z where z: "find (\<lambda>z. zone_id z = data_zoneId data \<and>
               zone_shopName z = data_shopName data \<and> zone_isActive z) (deliveryZones d) = Some z"
    by blast
  show ?thesis
    using assms(1,2) by (simp add: createDeliverySlot_def query_def z existingSlots_empty)
qed

lemma createDeliverySlot_overlap_unchanged:
  "overlappingSlot d data \<Longrightarrow> snd (createDeliverySlot newId d data) = d"
proof -
  assume ov: "overlappingSlot d data"
  then have e: "0 < length (existingSlots d data)"
    using existingSlots_empty [of d data] by (cases "existingSlots d data") simp_all
  show ?thesis
    using e by (simp add: createDeliverySlot_def query_def split: sum.splits option.splits)
qed

text \<open>
  Claim C1, as amended.  With the three queries of \<open>createDeliverySlot\<close> answered: no
  row is created when an active slot of the shop and zone overlaps the request; when the
  zone is an active zone of the shop and such a slot exists, the error is
  \<open>Time slot overlaps with existing slot\<close>; when the zone is not an active zone of the
  shop, the error is \<open>Invalid delivery zone for this shop\<close>, whether or not a slot
  overlaps; when the zone is an active zone of the shop, no active slot overlaps and
  the insert is accepted (the values fit their columns: times of at most 5 characters, a
  capacity within 32 bits, names of at most 191 characters; no slot of the shop and
  zone, active or not, has the same start and end time; the row id is new; the shop is a
  row of \<open>shops\<close>), the slot is created with \<open>currentOrders\<close> 0 and \<open>isActive\<close>
  true.  Overlap is decided in the order of the time strings; on times written
  \<open>HH:MM\<close>, with hours below 100 and minutes below 60, that is the order of the times.
\<close>

theorem createDeliverySlot_rejects_overlap_in_valid_zone:
  assumes "Q_createSlot_zone \<notin> outage d" and "Q_createSlot_existingSlots \<notin> outage d"
    and "Q_createSlot_create \<notin> outage d"
  shows "(overlappingSlot d data \<longrightarrow> snd (createDeliverySlot newId d data) = d)
       \<and> (validZone d data \<and> overlappingSlot d data
            \<longrightarrow> createDeliverySlot newId d data
                  = (Inl (Error ''Time slot overlaps with existing slot''), d))
       \<and> (\<not> validZone d data
            \<longrightarrow> createDeliverySlot newId d data
                  = (Inl (Error ''Invalid delivery zone for this shop''), d))
       \<and> (validZone d data \<and> \<not> overlappingSlot d data \<and> \<not> sameWindowSlot d data
            \<and> requestFits newId data
            \<and> newId \<notin> set (map slot_id (deliverySlots d)) \<and> data_shopName data \<in> set (shops d)
            \<longrightarrow> (\<exists>row. createDeliverySlot newId d data
                          = (Inr row, d\<lparr>deliverySlots := deliverySlots d @ [row]\<rparr>)
                     \<and> slot_currentOrders row = 0 \<and> slot_isActive row
                     \<and> slot_id row = newId
                     \<and> slot_shopName row = data_shopName data
                     \<and> slot_zoneId row = data_zoneId data
                     \<and> slot_startTime row = data_startTime data
                     \<and> slot_endTime row = data_endTime data
                     \<and> slot_capacity row = data_capacity data))
       \<and> (validZone d data \<and> \<not> overlappingSlot d data
            \<and> (\<not> requestFits newId data \<or> sameWindowSlot d data
                 \<or> newId \<in> set (map slot_id (deliverySlots d))
                 \<or> data_shopName data \<notin> set (shops d))
            \<longrightarrow> (\<exists>e. createDeliverySlot newId d data = (Inl (PrismaError e), d)))
       \<and> (\<forall>h m h' m'. h < 100 \<and> m < 60 \<and> h' < 100 \<and> m' < 60
            \<longrightarrow> ((HHMM h m \<le> HHMM h' m') = (h * 60 + m \<le> h' * 60 + m'))
              \<and> ((HHMM h m < HHMM h' m') = (h * 60 + m < h' * 60 + m')))"
proof -
  let ?row = "\<lparr> slot_id = newId,
                        slot_shopName = data_shopName data,
                        slot_startTime = data_startTime data,
                        slot_endTime = data_endTime data,
                        slot_capacity = data_capacity data,
                        slot_currentOrders = 0,
                        slot_isActive = True,
                        slot_zoneId = data_zoneId data \<rparr>"
  have a: "overlappingSlot d data \<longrightarrow> snd (createDeliverySlot newId d data) = d"
    by (simp add: createDeliverySlot_overlap_unchanged)
  have b: "validZone d data \<and> overlappingSlot d data
            \<longrightarrow> createDeliverySlot newId d data
                  = (Inl (Error ''Time slot overlaps with existing slot''), d)"
    using assms(1,2) by (simp add: createDeliverySlot_valid_zone)
  have c: "\<not> validZone d data
            \<longrightarrow> createDeliverySlot newId d data
                  = (Inl (Error ''Invalid delivery zone for this shop''), d)"
    using assms(1) by (simp add: createDeliverySlot_invalid_zone)
  have fits: "deliverySlot_fits ?row \<longleftrightarrow> requestFits newId data"
    by (auto simp add: deliverySlot_fits_def requestFits_def fitsVarchar_def fitsInteger_def)
  have acc: "validZone d data \<Longrightarrow>
             deliverySlot_accepts d ?row \<longleftrightarrow>
               \<not> sameWindowSlot d data \<and> newId \<notin> set (map slot_id (deliverySlots d))
               \<and> data_shopName data \<in> set (shops d)"
  proof -
    assume v: "validZone d data"
    have zid: "data_zoneId data \<in> set (map zone_id (deliveryZones d))"
      using v by (force simp: validZone_def)
    show ?thesis
      using zid by (auto simp add: deliverySlot_accepts_def sameWindowSlot_def)
  qed
  have e: "validZone d data \<and> \<not> overlappingSlot d data \<and> \<not> sameWindowSlot d data
            \<and> requestFits newId data
            \<and> newId \<notin> set (map slot_id (deliverySlots d)) \<and> data_shopName data \<in> set (shops d)
            \<longrightarrow> (\<exists>row. createDeliverySlot newId d data
                          = (Inr row, d\<lparr>deliverySlots := deliverySlots d @ [row]\<rparr>)
                     \<and> slot_currentOrders row = 0 \<and> slot_isActive row
                     \<and> slot_id row = newId
                     \<and> slot_shopName row = data_shopName data
                     \<and> slot_zoneId row = data_zoneId data
                     \<and> slot_startTime row = data_startTime data
                     \<and> slot_endTime row = data_endTime data
                     \<and> slot_capacity row = data_capacity data)"
  proof
    assume h: "validZone d data \<and> \<not> overlappingSlot d data \<and> \<not> sameWindowSlot d data
            \<and> requestFits newId data
            \<and> newId \<notin> set (map slot_id (deliverySlots d)) \<and> data_shopName data \<in> set (shops d)"
    have f: "deliverySlot_fits ?row" using h fits by blast
    have k: "deliverySlot_accepts d ?row" using h acc by blast
    have "createDeliverySlot newId d data = (Inr ?row, d\<lparr>deliverySlots := deliverySlots d @ [?row]\<rparr>)"
      using h f k assms by (simp add: createDeliverySlot_valid_zone deliverySlot_create_def)
    then show "\<exists>row. createDeliverySlot newId d data
                          = (Inr row, d\<lparr>deliverySlots := deliverySlots d @ [row]\<rparr>)
                     \<and> slot_currentOrders row = 0 \<and> slot_isActive row
                     \<and> slot_id row = newId
                     \<and> slot_shopName row = data_shopName data
                     \<and> slot_zoneId row = data_zoneId data
                     \<and> slot_startTime row = data_startTime data
                     \<and> slot_endTime row = data_endTime data
                     \<and> slot_capacity row = data_capacity data"
      by (intro exI [of _ ?row]) simp
  qed
  have r: "validZone d data \<and> \<not> overlappingSlot d data
            \<and> (\<not> requestFits newId data \<or> sameWindowSlot d data
                 \<or> newId \<in> set (map slot_id (deliverySlots d))
                 \<or> data_shopName data \<notin> set (shops d))
            \<longrightarrow> (\<exists>e. createDeliverySlot newId d data = (Inl (PrismaError e), d))"
  proof
    assume h: "validZone d data \<and> \<not> overlappingSlot d data
            \<and> (\<not> requestFits newId data \<or> sameWindowSlot d data
                 \<or> newId \<in> set (map slot_id (deliverySlots d))
                 \<or> data_shopName data \<notin> set (shops d))"
    then have v: "validZone d data" and o: "\<not> overlappingSlot d data" by blast+
    have "\<not> deliverySlot_fits ?row \<or> \<not> deliverySlot_accepts d ?row"
      using h fits acc [OF v] by blast
    then have "\<exists>e. deliverySlot_create d Q_createSlot_create ?row = (Inl (PrismaError e), d)"
      using assms(3) by (auto simp add: deliverySlot_create_def)
    then show "\<exists>e. createDeliverySlot newId d data = (Inl (PrismaError e), d)"
      using v o assms(1,2) by (simp add: createDeliverySlot_valid_zone)
  qed
  have t: "\<forall>h m h' m'. h < 100 \<and> m < 60 \<and> h' < 100 \<and> m' < 60
            \<longrightarrow> ((HHMM h m \<le> HHMM h' m') = (h * 60 + m \<le> h' * 60 + m'))
              \<and> ((HHMM h m < HHMM h' m') = (h * 60 + m < h' * 60 + m'))"
    using HHMM_le_iff HHMM_less_iff by blast
  show ?thesis by (intro conjI a b c e r t)
qed

theorem createDeliverySlot_rejects_overlap_in_valid_zone_witness:
  "validZone twoSlotsDb requestLate \<and> overlappingSlot twoSlotsDb requestLate
   \<and> createDeliverySlot ''slot-new'' twoSlotsDb requestLate
       = (Inl (Error ''Time slot overlaps with existing slot''), twoSlotsDb)
   \<and> \<not> validZone inactiveZoneDb requestLate
   \<and> createDeliverySlot ''slot-new'' inactiveZoneDb requestLate
       = (Inl (Error ''Invalid delivery zone for this shop''), inactiveZoneDb)
   \<and> validZone emptyDb requestLate \<and> \<not> overlappingSlot emptyDb requestLate
   \<and> \<not> sameWindowSlot emptyDb requestLate
   \<and> requestFits ''slot-new'' requestLate
   \<and> (\<exists>row. createDeliverySlot ''slot-new'' emptyDb requestLate
                = (Inr row, emptyDb\<lparr>deliverySlots := deliverySlots emptyDb @ [row]\<rparr>)
          \<and> slot_currentOrders row = 0 \<and> slot_isActive row)
   \<and> \<not> requestFits ''slot-new'' requestHuge
   \<and> (\<exists>e. createDeliverySlot ''slot-new'' emptyDb requestHuge = (Inl (PrismaError e), emptyDb))
   \<and> HHMM 9 0 = ''09:00'' \<and> HHMM 11 0 = ''11:00''
   \<and> ''09:00'' < ''11:00''"
proof -
  have v: "validZone twoSlotsDb requestLate" and o: "overlappingSlot twoSlotsDb requestLate"
    and i: "\<not> validZone inactiveZoneDb requestLate"
    and e: "validZone emptyDb requestLate" "\<not> overlappingSlot emptyDb requestLate"
        "\<not> sameWindowSlot emptyDb requestLate"
        "requestFits ''slot-new'' requestLate"
        "''slot-new'' \<notin> set (map slot_id (deliverySlots emptyDb))"
        "data_shopName requestLate \<in> set (shops emptyDb)"
    and g: "validZone emptyDb requestHuge" "\<not> overlappingSlot emptyDb requestHuge"
        "\<not> requestFits ''slot-new'' requestHuge"
    and f: "HHMM 9 0 = ''09:00''" "HHMM 11 0 = ''11:00''"
    by code_simp+
  note two = createDeliverySlot_rejects_overlap_in_valid_zone
               [of twoSlotsDb requestLate "''slot-new''"]
  note ina = createDeliverySlot_rejects_overlap_in_valid_zone
               [of inactiveZoneDb requestLate "''slot-new''"]
  note emp = createDeliverySlot_rejects_overlap_in_valid_zone
               [of emptyDb requestLate "''slot-new''"]
  note hug = createDeliverySlot_rejects_overlap_in_valid_zone
               [of emptyDb requestHuge "''slot-new''"]
  have t: "createDeliverySlot ''slot-new'' twoSlotsDb requestLate
       = (Inl (Error ''Time slot overlaps with existing slot''), twoSlotsDb)"
    using two v o by (simp add: examples_up)
  have n: "createDeliverySlot ''slot-new'' inactiveZoneDb requestLate
       = (Inl (Error ''Invalid delivery zone for this shop''), inactiveZoneDb)"
    using ina i by (simp add: examples_up)
  have c: "\<exists>row. createDeliverySlot ''slot-new'' emptyDb requestLate
                = (Inr row, emptyDb\<lparr>deliverySlots := deliverySlots emptyDb @ [row]\<rparr>)
          \<and> slot_currentOrders row = 0 \<and> slot_isActive row"
    using emp e by (auto simp add: examples_up)
  have x: "\<exists>e. createDeliverySlot ''slot-new'' emptyDb requestHuge = (Inl (PrismaError e), emptyDb)"
    using hug g by (simp add: examples_up)
  have "(HHMM 9 0 < HHMM 11 0) = ((9::nat) * 60 + 0 < 11 * 60 + 0)"
    using emp by (simp add: examples_up)
  then have l: "''09:00'' < ''11:00''" by (simp add: f)
  show ?thesis by (intro conjI v o t i n e(1,2,3,4) c g(3) x f l)
qed

text \<open>
  Claim C1 as stated fails in four ways.  In a zone that has been deactivated, a request
  that overlaps an active slot is refused with \<open>Invalid delivery zone for this shop\<close>,
  not with the overlap error.  In an active zone whose only slot from 09:00 to 11:00 has
  been deactivated, a request for 09:00 to 11:00 overlaps no active slot, yet no slot is
  created: the insert breaks the unique index on shop, zone, start and end time.  In an
  active zone without slots, a request with capacity 2147483648 and a request from
  14:00:00 to 16:00:00 overlap nothing, yet no slot is created: the capacity does not
  fit a 32-bit \<open>INTEGER\<close>, the times do not fit \<open>VARCHAR(5)\<close>.
\<close>

theorem createDeliverySlot_counterexample:
  "overlappingSlot inactiveZoneDb requestLate
   \<and> outage inactiveZoneDb = {}
   \<and> fst (createDeliverySlot ''slot-new'' inactiveZoneDb requestLate)
       \<noteq> Inl (Error ''Time slot overlaps with existing slot'')
   \<and> fst (createDeliverySlot ''slot-new'' inactiveZoneDb requestLate)
       = Inl (Error ''Invalid delivery zone for this shop'')
   \<and> validZone retiredSlotDb requestMorning
   \<and> \<not> overlappingSlot retiredSlotDb requestMorning
   \<and> outage retiredSlotDb = {}
   \<and> fst (createDeliverySlot ''slot-new'' retiredSlotDb requestMorning)
       = Inl (PrismaError ConstraintViolation)
   \<and> deliverySlots (snd (createDeliverySlot ''slot-new'' retiredSlotDb requestMorning))
       = deliverySlots retiredSlotDb
   \<and> validZone emptyDb requestHuge
   \<and> \<not> overlappingSlot emptyDb requestHuge
   \<and> outage emptyDb = {}
   \<and> fst (createDeliverySlot ''slot-new'' emptyDb requestHuge)
       = Inl (PrismaError ValidationError)
   \<and> deliverySlots (snd (createDeliverySlot ''slot-new'' emptyDb requestHuge)) = []
   \<and> validZone emptyDb requestSeconds
   \<and> \<not> overlappingSlot emptyDb requestSeconds
   \<and> fst (createDeliverySlot ''slot-new'' emptyDb requestSeconds)
       = Inl (PrismaError ValidationError)
   \<and> deliverySlots (snd (createDeliverySlot ''slot-new'' emptyDb requestSeconds)) = []"
  by code_simp

section \<open>Order creation\<close>


















lemma orderToCreate_slot:
  "orderToCreate newId shopName payload sel d = Some data \<Longrightarrow>
   \<exists>slot. selectedSlot d sel = Some slot"
  by (simp add: orderToCreate_def split: option.splits)















section \<open>Releasing a slot\<close>

lemma releaseSlot_slots:
  "deliverySlots (snd (releaseSlot d slotId)) =
     (if Q_releaseSlot_updateMany \<in> outage d then deliverySlots d
      else map (\<lambda>s. if decremented slotId s
                     then s\<lparr>slot_currentOrders := slot_currentOrders s - 1\<rparr> else s)
             (deliverySlots d))"
  by (simp add: releaseSlot_def decremented_def Let_def)

lemma releaseSlot_fst:
  "fst (releaseSlot d slotId) =
     (Q_releaseSlot_updateMany \<notin> outage d \<and> (\<exists>s \<in> set (deliverySlots d). decremented slotId s))"
  by (auto simp add: releaseSlot_def decremented_def Let_def filter_empty_conv)

lemma releaseSlot_unchanged:
  assumes "\<forall>s \<in> set (deliverySlots d). \<not> decremented slotId s"
  shows "snd (releaseSlot d slotId) = d"
proof -
  have "map (\<lambda>s. if slot_id s = slotId \<and> slot_currentOrders s > 0
                  then s\<lparr>slot_currentOrders := slot_currentOrders s - 1\<rparr> else s)
          (deliverySlots d)
        = deliverySlots d"
    using assms by (intro map_idI) (simp add: decremented_def)
  then show ?thesis by (simp add: releaseSlot_def Let_def)
qed

lemma releaseSlot_changed:
  assumes "Q_releaseSlot_updateMany \<notin> outage d"
    and "s \<in> set (deliverySlots d)" and "decremented slotId s"
  shows "snd (releaseSlot d slotId) \<noteq> d"
proof
  assume eq: "snd (releaseSlot d slotId) = d"
  obtain i where i: "i < length (deliverySlots d)" "deliverySlots d ! i = s"
    using assms(2) by (auto simp: in_set_conv_nth)
  have "deliverySlots (snd (releaseSlot d slotId)) ! i
          = s\<lparr>slot_currentOrders := slot_currentOrders s - 1\<rparr>"
    using assms i by (simp add: releaseSlot_slots)
  then have "s = s\<lparr>slot_currentOrders := slot_currentOrders s - 1\<rparr>"
    using eq i by simp
  then have "slot_currentOrders s
               = slot_currentOrders (s\<lparr>slot_currentOrders := slot_currentOrders s - 1\<rparr>)"
    by simp
  then show False by simp
qed

lemma releaseSlot_frame:
  "snd (releaseSlot d slotId) = d\<lparr>deliverySlots := deliverySlots (snd (releaseSlot d slotId))\<rparr>"
  by (simp add: releaseSlot_def Let_def)

lemma releaseSlot_row:
  assumes "i < length (deliverySlots d)"
  shows "deliverySlots (snd (releaseSlot d slotId)) ! i =
           (if Q_releaseSlot_updateMany \<notin> outage d \<and> decremented slotId (deliverySlots d ! i)
            then (deliverySlots d ! i)
                   \<lparr>slot_currentOrders := slot_currentOrders (deliverySlots d ! i) - 1\<rparr>
            else deliverySlots d ! i)"
  using assms by (simp add: releaseSlot_slots)

lemma decrement_differs:
  "s\<lparr>slot_currentOrders := slot_currentOrders s - 1\<rparr> \<noteq> s"
proof
  assume "s\<lparr>slot_currentOrders := slot_currentOrders s - 1\<rparr> = s"
  then have "slot_currentOrders (s\<lparr>slot_currentOrders := slot_currentOrders s - 1\<rparr>)
               = slot_currentOrders s"
    by simp
  then show False by simp
qed

text \<open>
  Claim C10.  \<open>releaseSlot\<close> keeps the counter \<open>currentOrders\<close> non-negative.  The
  call changes nothing but the slot table, which keeps its rows and their ids.  When the
  update is answered, every row of the slot whose counter is strictly positive becomes
  that row with the counter lowered by one, and every other row stays as it is; so a row
  whose counter was non-negative has a non-negative counter afterwards, and a row that
  changed is a row of the slot whose counter was strictly positive.  The call returns
  true exactly when a row was updated (some row of the table differs afterwards), which
  is when the update is answered and the slot has a row with a positive counter.  When
  the counter of the slot is zero the call returns false and the database is unchanged.
\<close>

theorem releaseSlot_keeps_currentOrders_nonnegative:
  "length (deliverySlots (snd (releaseSlot d slotId))) = length (deliverySlots d)
   \<and> (\<forall>i < length (deliverySlots d).
        slot_id (deliverySlots (snd (releaseSlot d slotId)) ! i) = slot_id (deliverySlots d ! i)
      \<and> (0 \<le> slot_currentOrders (deliverySlots d ! i)
           \<longrightarrow> 0 \<le> slot_currentOrders (deliverySlots (snd (releaseSlot d slotId)) ! i))
      \<and> (deliverySlots (snd (releaseSlot d slotId)) ! i \<noteq> deliverySlots d ! i
           \<longrightarrow> slot_id (deliverySlots d ! i) = slotId
             \<and> 0 < slot_currentOrders (deliverySlots d ! i)
             \<and> slot_currentOrders (deliverySlots (snd (releaseSlot d slotId)) ! i)
                 = slot_currentOrders (deliverySlots d ! i) - 1))
   \<and> (fst (releaseSlot d slotId) \<longleftrightarrow> snd (releaseSlot d slotId) \<noteq> d)
   \<and> (fst (releaseSlot d slotId)
        \<longleftrightarrow> Q_releaseSlot_updateMany \<notin> outage d
            \<and> (\<exists>s \<in> set (deliverySlots d). slot_id s = slotId \<and> 0 < slot_currentOrders s))
   \<and> ((\<forall>s \<in> set (deliverySlots d). slot_id s = slotId \<longrightarrow> slot_currentOrders s = 0)
        \<longrightarrow> \<not> fst (releaseSlot d slotId) \<and> snd (releaseSlot d slotId) = d)
   \<and> snd (releaseSlot d slotId)
       = d\<lparr>deliverySlots := deliverySlots (snd (releaseSlot d slotId))\<rparr>
   \<and> (\<forall>i < length (deliverySlots d).
        (Q_releaseSlot_updateMany \<notin> outage d
           \<and> slot_id (deliverySlots d ! i) = slotId \<and> 0 < slot_currentOrders (deliverySlots d ! i)
         \<longrightarrow> deliverySlots (snd (releaseSlot d slotId)) ! i
               = (deliverySlots d ! i)
                   \<lparr>slot_currentOrders := slot_currentOrders (deliverySlots d ! i) - 1\<rparr>)
      \<and> (\<not> (Q_releaseSlot_updateMany \<notin> outage d
              \<and> slot_id (deliverySlots d ! i) = slotId
              \<and> 0 < slot_currentOrders (deliverySlots d ! i))
         \<longrightarrow> deliverySlots (snd (releaseSlot d slotId)) ! i = deliverySlots d ! i))
   \<and> (fst (releaseSlot d slotId)
        \<longleftrightarrow> (\<exists>i < length (deliverySlots d).
               deliverySlots (snd (releaseSlot d slotId)) ! i \<noteq> deliverySlots d ! i))"
proof -
  let ?r = "releaseSlot d slotId"
  have len: "length (deliverySlots (snd ?r)) = length (deliverySlots d)"
    by (simp add: releaseSlot_slots)
  have rows: "\<forall>i < length (deliverySlots d).
            slot_id (deliverySlots (snd ?r) ! i) = slot_id (deliverySlots d ! i)
          \<and> (0 \<le> slot_currentOrders (deliverySlots d ! i)
               \<longrightarrow> 0 \<le> slot_currentOrders (deliverySlots (snd ?r) ! i))
          \<and> (deliverySlots (snd ?r) ! i \<noteq> deliverySlots d ! i
               \<longrightarrow> slot_id (deliverySlots d ! i) = slotId
                 \<and> 0 < slot_currentOrders (deliverySlots d ! i)
                 \<and> slot_currentOrders (deliverySlots (snd ?r) ! i)
                     = slot_currentOrders (deliverySlots d ! i) - 1)"
    by (simp add: releaseSlot_slots decremented_def)
  have iff: "fst ?r \<longleftrightarrow> snd ?r \<noteq> d"
  proof
    assume "fst ?r"
    then obtain s where "Q_releaseSlot_updateMany \<notin> outage d"
      and "s \<in> set (deliverySlots d)" and "decremented slotId s"
      by (auto simp: releaseSlot_fst)
    then show "snd ?r \<noteq> d" by (rule releaseSlot_changed)
  next
    assume ne: "snd ?r \<noteq> d"
    have "\<not> (\<forall>s \<in> set (deliverySlots d). \<not> decremented slotId s)"
      using ne releaseSlot_unchanged [of d slotId] by auto
    moreover have "Q_releaseSlot_updateMany \<notin> outage d"
      using ne by (auto simp: releaseSlot_def)
    ultimately show "fst ?r" by (auto simp: releaseSlot_fst)
  qed
  have ex: "fst ?r \<longleftrightarrow> Q_releaseSlot_updateMany \<notin> outage d
            \<and> (\<exists>s \<in> set (deliverySlots d). slot_id s = slotId \<and> 0 < slot_currentOrders s)"
    by (auto simp: releaseSlot_fst decremented_def)
  have zero: "(\<forall>s \<in> set (deliverySlots d). slot_id s = slotId \<longrightarrow> slot_currentOrders s = 0)
            \<longrightarrow> \<not> fst ?r \<and> snd ?r = d"
  proof
    assume a: "\<forall>s \<in> set (deliverySlots d). slot_id s = slotId \<longrightarrow> slot_currentOrders s = 0"
    then have n: "\<forall>s \<in> set (deliverySlots d). \<not> decremented slotId s"
      by (auto simp: decremented_def)
    then show "\<not> fst ?r \<and> snd ?r = d"
      using releaseSlot_unchanged [OF n] by (auto simp: releaseSlot_fst)
  qed
  have frame: "snd ?r = d\<lparr>deliverySlots := deliverySlots (snd ?r)\<rparr>"
    by (rule releaseSlot_frame)
  have upd: "\<forall>i < length (deliverySlots d).
        (Q_releaseSlot_updateMany \<notin> outage d
           \<and> slot_id (deliverySlots d ! i) = slotId \<and> 0 < slot_currentOrders (deliverySlots d ! i)
         \<longrightarrow> deliverySlots (snd ?r) ! i
               = (deliverySlots d ! i)
                   \<lparr>slot_currentOrders := slot_currentOrders (deliverySlots d ! i) - 1\<rparr>)
      \<and> (\<not> (Q_releaseSlot_updateMany \<notin> outage d
              \<and> slot_id (deliverySlots d ! i) = slotId
              \<and> 0 < slot_currentOrders (deliverySlots d ! i))
         \<longrightarrow> deliverySlots (snd ?r) ! i = deliverySlots d ! i)"
    by (simp add: releaseSlot_row decremented_def)
  have some: "fst ?r \<longleftrightarrow> (\<exists>i < length (deliverySlots d).
               deliverySlots (snd ?r) ! i \<noteq> deliverySlots d ! i)"
  proof
    assume "fst ?r"
    then obtain s where up: "Q_releaseSlot_updateMany \<notin> outage d"
      and s: "s \<in> set (deliverySlots d)" and dec: "decremented slotId s"
      by (auto simp: releaseSlot_fst)
    obtain i where i: "i < length (deliverySlots d)" "deliverySlots d ! i = s"
      using s by (auto simp: in_set_conv_nth)
    have "deliverySlots (snd ?r) ! i = s\<lparr>slot_currentOrders := slot_currentOrders s - 1\<rparr>"
      using up dec i by (simp add: releaseSlot_row)
    then have "deliverySlots (snd ?r) ! i \<noteq> deliverySlots d ! i"
      using i(2) decrement_differs [of s] by simp
    then show "\<exists>i < length (deliverySlots d).
               deliverySlots (snd ?r) ! i \<noteq> deliverySlots d ! i"
      using i(1) by blast
  next
    assume "\<exists>i < length (deliverySlots d).
               deliverySlots (snd ?r) ! i \<noteq> deliverySlots d ! i"
    then obtain i where i: "i < length (deliverySlots d)"
      and ne: "deliverySlots (snd ?r) ! i \<noteq> deliverySlots d ! i"
      by blast
    have "Q_releaseSlot_updateMany \<notin> outage d \<and> decremented slotId (deliverySlots d ! i)"
      using ne releaseSlot_row [OF i, of slotId] by (auto split: if_splits)
    then show "fst ?r"
      using i by (auto simp: releaseSlot_fst)
  qed
  show ?thesis by (intro conjI len rows iff ex zero frame upd some)
qed

theorem releaseSlot_keeps_currentOrders_nonnegative_witness:
  "deliverySlots twoSlotsDb = [slotMorning, slotNoon]
   \<and> slot_currentOrders slotMorning = 0
   \<and> \<not> fst (releaseSlot twoSlotsDb ''slot-am'')
   \<and> snd (releaseSlot twoSlotsDb ''slot-am'') = twoSlotsDb
   \<and> 1 < length (deliverySlots twoSlotsDb)
   \<and> 0 \<le> slot_currentOrders (deliverySlots twoSlotsDb ! 1)
   \<and> 0 \<le> slot_currentOrders (deliverySlots (snd (releaseSlot twoSlotsDb ''slot-pm'')) ! 1)
   \<and> Q_releaseSlot_updateMany \<notin> outage twoSlotsDb
   \<and> slot_id (deliverySlots twoSlotsDb ! 1) = ''slot-pm''
   \<and> slot_currentOrders (deliverySlots twoSlotsDb ! 1) = 2
   \<and> fst (releaseSlot twoSlotsDb ''slot-pm'')
   \<and> deliverySlots (snd (releaseSlot twoSlotsDb ''slot-pm'')) ! 1
       = slotNoon\<lparr>slot_currentOrders := 1\<rparr>
   \<and> deliverySlots (snd (releaseSlot twoSlotsDb ''slot-pm'')) ! 0 = slotMorning"
proof -
  have h: "\<forall>s \<in> set (deliverySlots twoSlotsDb). slot_id s = ''slot-am'' \<longrightarrow> slot_currentOrders s = 0"
    by (simp add: twoSlotsDb_def emptyDb_def slotMorning_def slotNoon_def)
  have l: "1 < length (deliverySlots twoSlotsDb)" "0 < length (deliverySlots twoSlotsDb)"
    by (simp_all add: twoSlotsDb_def)
  have n: "0 \<le> slot_currentOrders (deliverySlots twoSlotsDb ! 1)"
    by (simp add: twoSlotsDb_def slotNoon_def)
  have e: "deliverySlots twoSlotsDb = [slotMorning, slotNoon]"
    and z: "slot_currentOrders slotMorning = 0"
    by (simp_all add: twoSlotsDb_def slotMorning_def)
  have up: "Q_releaseSlot_updateMany \<notin> outage twoSlotsDb"
    by (simp add: examples_up)
  have r1: "deliverySlots twoSlotsDb ! 1 = slotNoon" "deliverySlots twoSlotsDb ! 0 = slotMorning"
    by (simp_all add: e)
  have p: "slot_id (deliverySlots twoSlotsDb ! 1) = ''slot-pm''"
      "slot_currentOrders (deliverySlots twoSlotsDb ! 1) = 2"
      "0 < slot_currentOrders (deliverySlots twoSlotsDb ! 1)"
      "slot_id (deliverySlots twoSlotsDb ! 0) \<noteq> ''slot-pm''"
    by (simp_all add: e slotNoon_def slotMorning_def)
  note am = releaseSlot_keeps_currentOrders_nonnegative [of twoSlotsDb "''slot-am''"]
  note pm = releaseSlot_keeps_currentOrders_nonnegative [of twoSlotsDb "''slot-pm''"]
  have a: "\<not> fst (releaseSlot twoSlotsDb ''slot-am'')"
      "snd (releaseSlot twoSlotsDb ''slot-am'') = twoSlotsDb"
    using am h by blast+
  have b: "0 \<le> slot_currentOrders (deliverySlots (snd (releaseSlot twoSlotsDb ''slot-pm'')) ! 1)"
    using pm l(1) n by blast
  have c: "deliverySlots (snd (releaseSlot twoSlotsDb ''slot-pm'')) ! 1
       = (deliverySlots twoSlotsDb ! 1)
           \<lparr>slot_currentOrders := slot_currentOrders (deliverySlots twoSlotsDb ! 1) - 1\<rparr>"
    using pm l(1) up p(1,3) by blast
  have c': "deliverySlots (snd (releaseSlot twoSlotsDb ''slot-pm'')) ! 1
       = slotNoon\<lparr>slot_currentOrders := 1\<rparr>"
    using c by (simp add: e slotNoon_def)
  have k: "deliverySlots (snd (releaseSlot twoSlotsDb ''slot-pm'')) ! 0 = deliverySlots twoSlotsDb ! 0"
    using pm l(2) p(4) by blast
  have k': "deliverySlots (snd (releaseSlot twoSlotsDb ''slot-pm'')) ! 0 = slotMorning"
    using k by (simp add: e)
  have t: "fst (releaseSlot twoSlotsDb ''slot-pm'')"
  proof -
    have "deliverySlots (snd (releaseSlot twoSlotsDb ''slot-pm'')) ! 1 \<noteq> deliverySlots twoSlotsDb ! 1"
      using c decrement_differs [of "deliverySlots twoSlotsDb ! 1"] by simp
    then show ?thesis using pm l(1) by blast
  qed
  show ?thesis by (intro conjI e z a l(1) n b up p(1,2) t c' k')
qed

end
